theory Spec2Isabelle
  imports Complex_Main "HOL-Library.AList"
begin

section \<open>const.py\<close>

text \<open>
  Python \<open>str\<close> values are modelled as \<open>string\<close>, one \<open>char\<close> per code point (all
  code points the integration itself writes are below 256). A \<open>float\<close> is idealised as a
  \<open>real\<close>: comparisons and the branch structure are exact, rounding of products and the
  non-finite values are outside the model.
\<close>

definition DOMAIN :: string where
  "DOMAIN = ''opensensemap''"

definition API_URL :: "string \<Rightarrow> string" where
  \<comment> \<open>\<open>API_URL.format(box_id=...)\<close>\<close>
  "API_URL box_id = ''https://api.opensensemap.org/boxes/'' @ box_id @ ''/data''"

definition SOFTWARE_TYPE :: string where
  "SOFTWARE_TYPE = ''HomeAssistant-OpenSenseMap''"

definition DEFAULT_UPDATE_INTERVAL :: int where
  "DEFAULT_UPDATE_INTERVAL = 300"

definition MIN_UPDATE_INTERVAL :: int where
  "MIN_UPDATE_INTERVAL = 60"

definition CONF_BOX_ID :: string where
  "CONF_BOX_ID = ''box_id''"

definition CONF_ACCESS_TOKEN :: string where
  "CONF_ACCESS_TOKEN = ''access_token''"

definition CONF_UPDATE_INTERVAL :: string where
  "CONF_UPDATE_INTERVAL = ''update_interval''"

definition CONF_DEBUG_MODE :: string where
  "CONF_DEBUG_MODE = ''debug_mode''"

definition CONF_SENSOR_ID_PM25 :: string where
  "CONF_SENSOR_ID_PM25 = ''sensor_id_pm25''"

definition CONF_SENSOR_ID_PM10 :: string where
  "CONF_SENSOR_ID_PM10 = ''sensor_id_pm10''"

definition CONF_SENSOR_ID_TEMPERATURE :: string where
  "CONF_SENSOR_ID_TEMPERATURE = ''sensor_id_temperature''"

definition CONF_SENSOR_ID_HUMIDITY :: string where
  "CONF_SENSOR_ID_HUMIDITY = ''sensor_id_humidity''"

definition CONF_SENSOR_ID_PRESSURE :: string where
  "CONF_SENSOR_ID_PRESSURE = ''sensor_id_pressure''"

definition CONF_ENTITY_PM25 :: string where
  "CONF_ENTITY_PM25 = ''entity_pm25''"

definition CONF_ENTITY_PM10 :: string where
  "CONF_ENTITY_PM10 = ''entity_pm10''"

definition CONF_ENTITY_TEMPERATURE :: string where
  "CONF_ENTITY_TEMPERATURE = ''entity_temperature''"

definition CONF_ENTITY_HUMIDITY :: string where
  "CONF_ENTITY_HUMIDITY = ''entity_humidity''"

definition CONF_ENTITY_PRESSURE :: string where
  "CONF_ENTITY_PRESSURE = ''entity_pressure''"

definition MEASUREMENT_PM :: string where
  "MEASUREMENT_PM = ''pm''"

definition MEASUREMENT_TEMPERATURE :: string where
  "MEASUREMENT_TEMPERATURE = ''temperature''"

definition MEASUREMENT_HUMIDITY :: string where
  "MEASUREMENT_HUMIDITY = ''humidity''"

definition MEASUREMENT_PRESSURE :: string where
  "MEASUREMENT_PRESSURE = ''pressure''"

text \<open>Each entry is \<open>(sensor_id_key, entity_key, label, measurement_type)\<close>.\<close>

type_synonym sensor_config = "string \<times> string \<times> string \<times> string"

definition SENSOR_CONFIGS :: "sensor_config list" where
  "SENSOR_CONFIGS =
    [(CONF_SENSOR_ID_PM25, CONF_ENTITY_PM25, ''PM2.5'', MEASUREMENT_PM),
     (CONF_SENSOR_ID_PM10, CONF_ENTITY_PM10, ''PM10'', MEASUREMENT_PM),
     (CONF_SENSOR_ID_TEMPERATURE, CONF_ENTITY_TEMPERATURE, ''Temperature'', MEASUREMENT_TEMPERATURE),
     (CONF_SENSOR_ID_HUMIDITY, CONF_ENTITY_HUMIDITY, ''Humidity'', MEASUREMENT_HUMIDITY),
     (CONF_SENSOR_ID_PRESSURE, CONF_ENTITY_PRESSURE, ''Pressure'', MEASUREMENT_PRESSURE)]"

section \<open>Home Assistant objects the coordinator reads\<close>

text \<open>
  A \<open>State\<close> of the state machine: its \<open>state\<close> string and its \<open>attributes\<close> dict (only
  string-valued attributes are read). \<open>hass.states.get\<close> is the lookup \<open>states\<close>, with
  \<open>None\<close> for an entity the state machine does not know.
\<close>

record State =
  state :: string
  attributes :: "string \<rightharpoonup> string"

record HomeAssistant =
  states :: "string \<rightharpoonup> State"

section \<open>coordinator.py: unit conversion\<close>

definition degree_F :: string where
  \<comment> \<open>the two code points U+00B0 and F\<close>
  "degree_F = [CHR 0xB0, CHR ''F'']"

definition convert_value :: "string \<Rightarrow> real \<Rightarrow> State \<Rightarrow> real" where
  "convert_value measurement_type value st =
    (let unit = (case attributes st ''unit_of_measurement'' of None \<Rightarrow> '''' | Some u \<Rightarrow> u) in
     if measurement_type = MEASUREMENT_TEMPERATURE then
       (if unit \<in> {degree_F, ''F''} then (value - 32) * 5 / 9 else value)
     else if measurement_type = MEASUREMENT_PRESSURE then
       (if unit \<in> {''hPa'', ''mbar'', ''''} then value * 100
        else if unit = ''inHg'' then value * 3386.39
        else if unit = ''psi'' then value * 6894.76
        else value)
     else if measurement_type = MEASUREMENT_HUMIDITY then
       (if value > 1 \<and> value \<le> 100 then value
        else if value \<le> 1 then value * 100
        else value)
     else value)"

section \<open>Configuration entry\<close>

text \<open>
  \<open>entry.data\<close> and \<open>entry.options\<close> are \<open>dict[str, Any]\<close>. The values the
  config flow stores are typed by its schema, so each dict is split by the type of its
  values: \<open>strs\<close> holds the box id, the access token, the remote sensor ids and the
  entity ids, \<open>nums\<close> the update interval, \<open>flags\<close> the debug flag. The entry is an object
  shared with Home Assistant, which replaces its dicts on an update; the model passes the
  entry as it is at the time of a call to every operation that reads it.
\<close>

record ConfDict =
  strs :: "string \<rightharpoonup> string"
  nums :: "string \<rightharpoonup> int"
  flags :: "string \<rightharpoonup> bool"

record ConfigEntry =
  data :: ConfDict
  options :: ConfDict

definition empty_dict :: ConfDict where
  "empty_dict = \<lparr>strs = Map.empty, nums = Map.empty, flags = Map.empty\<rparr>"

definition get_str :: "ConfigEntry \<Rightarrow> string \<Rightarrow> string option" where
  \<comment> \<open>\<open>options.get(key, config_data.get(key))\<close>\<close>
  "get_str entry key =
    (case strs (options entry) key of Some v \<Rightarrow> Some v | None \<Rightarrow> strs (data entry) key)"

definition truthy :: "string option \<Rightarrow> bool" where
  \<comment> \<open>the truth value of \<open>x: str | None\<close>\<close>
  "truthy x = (case x of None \<Rightarrow> False | Some s \<Rightarrow> s \<noteq> [])"

definition falsy :: "string option \<Rightarrow> bool" where
  \<comment> \<open>\<open>not x\<close> for \<open>x: str | None\<close>\<close>
  "falsy x = (case x of None \<Rightarrow> True | Some s \<Rightarrow> s = [])"

fun join :: "string \<Rightarrow> string list \<Rightarrow> string" where
  "join sep [] = []"
| "join sep [x] = x"
| "join sep (x # y # ys) = x @ sep @ join sep (y # ys)"

fun str_nat :: "nat \<Rightarrow> string" where
  "str_nat n =
    (if n < 10 then [''0123456789'' ! n]
     else str_nat (n div 10) @ [''0123456789'' ! (n mod 10)])"

definition str_int :: "int \<Rightarrow> string" where
  \<comment> \<open>\<open>str\<close> of an \<open>int\<close>, as an f-string renders it\<close>
  "str_int i = (if i < 0 then ''-'' @ str_nat (nat (- i)) else str_nat (nat i))"

section \<open>coordinator.py: the coordinator object\<close>

text \<open>
  A request as \<open>session.post\<close> receives it; the debug snapshot \<open>last_request_data\<close> is a
  dict with the same three keys. Headers and payload are dicts in insertion order.
\<close>

record request =
  url :: string
  headers :: "(string \<times> string) list"
  payload :: "(string \<times> string) list"

text \<open>
  What the network does with a posted request: a response with its status and body text,
  \<open>asyncio.TimeoutError\<close>, an \<open>aiohttp.ClientError\<close> or any other \<open>Exception\<close>, each
  with its \<open>str(err)\<close>.
\<close>

datatype net_outcome =
    Response int string
  | TimeoutError
  | ClientError string
  | OtherException string

datatype pyexc = PyException string

text \<open>
  The attributes of \<open>OpenSenseMapCoordinator\<close>; \<open>p_box_id\<close>, \<open>p_access_token\<close> and
  \<open>p_session\<close> are \<open>_box_id\<close>, \<open>_access_token\<close> and whether \<open>_session\<close> is set;
  \<open>update_interval\<close> is in seconds and a \<open>datetime\<close> is a number of seconds.
\<close>

record coordinator =
  p_box_id :: string
  p_access_token :: "string option"
  p_session :: bool
  last_upload :: "int option"
  last_error :: "string option"
  upload_count :: int
  last_request_data :: "request option"
  update_interval :: int

definition OpenSenseMapCoordinator_init :: "ConfigEntry \<Rightarrow> coordinator option" where
  \<comment> \<open>\<open>None\<close> is the \<open>KeyError\<close> of \<open>entry.data[CONF_BOX_ID]\<close>\<close>
  "OpenSenseMapCoordinator_init entry =
    (case strs (data entry) CONF_BOX_ID of
       None \<Rightarrow> None
     | Some box \<Rightarrow>
         Some \<lparr>p_box_id = box,
               p_access_token = strs (data entry) CONF_ACCESS_TOKEN,
               p_session = False,
               last_upload = None,
               last_error = None,
               upload_count = 0,
               last_request_data = None,
               update_interval =
                 (case nums (options entry) CONF_UPDATE_INTERVAL of
                    Some i \<Rightarrow> i
                  | None \<Rightarrow>
                      (case nums (data entry) CONF_UPDATE_INTERVAL of
                         Some i \<Rightarrow> i
                       | None \<Rightarrow> DEFAULT_UPDATE_INTERVAL))\<rparr>)"

definition debug_mode :: "ConfigEntry \<Rightarrow> bool" where
  "debug_mode entry =
    (case flags (options entry) CONF_DEBUG_MODE of
       Some b \<Rightarrow> b
     | None \<Rightarrow> (case flags (data entry) CONF_DEBUG_MODE of Some b \<Rightarrow> b | None \<Rightarrow> False))"

definition next_upload :: "coordinator \<Rightarrow> int option" where
  "next_upload c =
    (case last_upload c of Some t \<Rightarrow> Some (t + update_interval c) | None \<Rightarrow> None)"

definition unusable :: "State option \<Rightarrow> bool" where
  \<comment> \<open>\<open>state is None or state.state in ("unknown", "unavailable", None)\<close>\<close>
  "unusable st = (case st of None \<Rightarrow> True | Some s \<Rightarrow> state s \<in> {''unknown'', ''unavailable''})"

definition availability_step ::
  "ConfigEntry \<Rightarrow> HomeAssistant \<Rightarrow> sensor_config \<Rightarrow> string list \<Rightarrow> string list" where
  \<comment> \<open>one pass of the loop body of \<open>_all_sensors_available\<close>\<close>
  "availability_step entry hass cfg unavailable =
    (case cfg of (sensor_id_key, entity_key, label, measurement_type) \<Rightarrow>
      (let sensor_id = get_str entry sensor_id_key;
           entity_id = get_str entry entity_key
       in if falsy sensor_id \<or> falsy entity_id then unavailable
          else (case entity_id of
                  None \<Rightarrow> unavailable
                | Some eid \<Rightarrow>
                    if unusable (states hass eid) then unavailable @ [eid] else unavailable)))"

definition all_sensors_available :: "ConfigEntry \<Rightarrow> HomeAssistant \<Rightarrow> bool \<times> string list" where
  "all_sensors_available entry hass =
    (let unavailable = fold (availability_step entry hass) SENSOR_CONFIGS []
     in (length unavailable = 0, unavailable))"

text \<open>
  \<open>float(state.state)\<close> and the format \<open>f"{value:.2f}"\<close> are Python's own; the collector
  takes them as the parameters \<open>pyfloat\<close> (with \<open>None\<close> for the \<open>ValueError\<close> the
  collector catches) and \<open>fmt\<close>.
\<close>

definition collect_step ::
  "(string \<Rightarrow> real option) \<Rightarrow> (real \<Rightarrow> string) \<Rightarrow> ConfigEntry \<Rightarrow> HomeAssistant \<Rightarrow>
   sensor_config \<Rightarrow> (string \<times> string) list \<Rightarrow> (string \<times> string) list" where
  \<comment> \<open>one pass of the loop body of \<open>_collect_sensor_data\<close>\<close>
  "collect_step pyfloat fmt entry hass cfg dat =
    (case cfg of (sensor_id_key, entity_key, label, measurement_type) \<Rightarrow>
      (let sensor_id = get_str entry sensor_id_key;
           entity_id = get_str entry entity_key
       in if falsy sensor_id \<or> falsy entity_id then dat
          else (case (sensor_id, entity_id) of
                  (Some sid, Some eid) \<Rightarrow>
                    (case states hass eid of
                       None \<Rightarrow> dat
                     | Some st \<Rightarrow>
                         if unusable (Some st) then dat
                         else (case pyfloat (state st) of
                                 None \<Rightarrow> dat
                               | Some value \<Rightarrow>
                                   AList.update sid
                                     (fmt (convert_value measurement_type value st)) dat))
                | _ \<Rightarrow> dat)))"

definition collect_sensor_data ::
  "(string \<Rightarrow> real option) \<Rightarrow> (real \<Rightarrow> string) \<Rightarrow> ConfigEntry \<Rightarrow> HomeAssistant \<Rightarrow>
   (string \<times> string) list" where
  "collect_sensor_data pyfloat fmt entry hass =
    fold (collect_step pyfloat fmt entry hass) SENSOR_CONFIGS []"

text \<open>
  The status dict of \<open>_get_status_data\<close>; \<open>d_last_request\<close> is \<open>None\<close> when the dict has
  no key \<open>"last_request"\<close>. \<open>isoformat\<close> is left out: the fields hold the time itself.
\<close>

record status_data =
  d_last_upload :: "int option"
  d_last_error :: "string option"
  d_upload_count :: int
  d_next_upload :: "int option"
  d_box_id :: string
  d_last_request :: "request option"

definition get_status_data :: "ConfigEntry \<Rightarrow> coordinator \<Rightarrow> status_data" where
  "get_status_data entry c =
    \<lparr>d_last_upload = last_upload c,
     d_last_error = last_error c,
     d_upload_count = upload_count c,
     d_next_upload = next_upload c,
     d_box_id = p_box_id c,
     d_last_request =
       (if debug_mode entry \<and> last_request_data c \<noteq> None then last_request_data c else None)\<rparr>"

definition request_headers :: "string option \<Rightarrow> (string \<times> string) list" where
  \<comment> \<open>the \<open>headers\<close> dict of \<open>_push_sensor_data\<close>\<close>
  "request_headers access_token =
    [(''Content-Type'', ''application/json; charset=utf-8''),
     (''User-Agent'', SOFTWARE_TYPE @ ''/1.0.0'')]
    @ (case access_token of
         None \<Rightarrow> []
       | Some t \<Rightarrow> if t = [] then [] else [(''Authorization'', ''Bearer '' @ t)])"

definition redact :: "(string \<times> string) list \<Rightarrow> (string \<times> string) list" where
  \<comment> \<open>\<open>{k: v if k != "Authorization" else "***" for k, v in headers.items()}\<close>\<close>
  "redact hs = map (\<lambda>(k, v). (k, if k \<noteq> ''Authorization'' then v else ''***'')) hs"

text \<open>
  \<open>_push_sensor_data\<close> returns the coordinator as it leaves it, the requests it posted,
  and either the exception that leaves it or its \<open>(success, response)\<close> pair. Without a
  session, \<open>self._session.post\<close> is an attribute access on \<open>None\<close>: the
  \<open>AttributeError\<close> is caught by neither \<open>except\<close> clause and leaves the function,
  after the snapshot was taken and before anything is posted.
\<close>

definition push_sensor_data ::
  "(string \<Rightarrow> real option) \<Rightarrow> (real \<Rightarrow> string) \<Rightarrow> ConfigEntry \<Rightarrow> HomeAssistant \<Rightarrow>
   (request \<Rightarrow> net_outcome) \<Rightarrow> coordinator \<Rightarrow>
   coordinator \<times> request list \<times> (pyexc + bool \<times> string option)" where
  "push_sensor_data pyfloat fmt entry hass net c =
    (let sensor_data = collect_sensor_data pyfloat fmt entry hass in
     if sensor_data = [] then (c, [], Inr (True, None))
     else
       (let url = API_URL (p_box_id c);
            headers = request_headers (p_access_token c);
            c1 = (if debug_mode entry
                  then c\<lparr>last_request_data :=
                           Some \<lparr>url = url, headers = redact headers, payload = sensor_data\<rparr>\<rparr>
                  else c);
            req = \<lparr>url = url, headers = headers, payload = sensor_data\<rparr>
        in if \<not> p_session c1 then
             (c1, [],
              Inl (PyException
                ([CHR 0x27] @ ''NoneType'' @ [CHR 0x27] @ '' object has no attribute ''
                 @ [CHR 0x27] @ ''post'' @ [CHR 0x27])))
           else
             (c1, [req],
              (case net req of
                 Response status error_text \<Rightarrow>
                   if status \<in> {200, 201} then Inr (True, None)
                   else Inr (False, Some (''HTTP '' @ str_int status @ '': '' @ error_text))
               | TimeoutError \<Rightarrow> Inr (False, Some ''Request timeout'')
               | ClientError msg \<Rightarrow> Inr (False, Some msg)
               | OtherException msg \<Rightarrow> Inl (PyException msg)))))"

text \<open>
  The \<open>try\<close> block of \<open>_async_update_data\<close>, with \<open>now\<close> for \<open>datetime.now()\<close>: the
  coordinator as the block leaves it, the requests posted, and the exception that leaves
  the block or the status dict it returns.
\<close>

definition update_try ::
  "(string \<Rightarrow> real option) \<Rightarrow> (real \<Rightarrow> string) \<Rightarrow> ConfigEntry \<Rightarrow> HomeAssistant \<Rightarrow>
   (request \<Rightarrow> net_outcome) \<Rightarrow> int \<Rightarrow> coordinator \<Rightarrow>
   coordinator \<times> request list \<times> (pyexc + status_data)" where
  "update_try pyfloat fmt entry hass net now c =
    (case all_sensors_available entry hass of (all_available, unavailable) \<Rightarrow>
      if \<not> all_available then
        (let c1 = c\<lparr>last_error := Some (''Sensors unavailable: '' @ join '', '' unavailable)\<rparr>
         in (c1, [], Inr (get_status_data entry c1)))
      else
        (let c1 = (if \<not> p_session c then c\<lparr>p_session := True\<rparr> else c)
         in (case push_sensor_data pyfloat fmt entry hass net c1 of
               (c2, posts, Inl err) \<Rightarrow> (c2, posts, Inl err)
             | (c2, posts, Inr (success, response)) \<Rightarrow>
                 (let c3 =
                    (if success
                     then c2\<lparr>last_upload := Some now,
                             upload_count := upload_count c2 + 1,
                             last_error := None\<rparr>
                     else c2\<lparr>last_error :=
                               Some (case response of
                                       None \<Rightarrow> ''Unknown error''
                                     | Some m \<Rightarrow> if m = [] then ''Unknown error'' else m)\<rparr>)
                  in (c3, posts, Inr (get_status_data entry c3))))))"

definition async_update_data ::
  "(string \<Rightarrow> real option) \<Rightarrow> (real \<Rightarrow> string) \<Rightarrow> ConfigEntry \<Rightarrow> HomeAssistant \<Rightarrow>
   (request \<Rightarrow> net_outcome) \<Rightarrow> int \<Rightarrow> coordinator \<Rightarrow>
   coordinator \<times> request list \<times> (pyexc + status_data)" where
  \<comment> \<open>\<open>except Exception as err\<close>: record \<open>str(err)\<close> and return the status dict\<close>
  "async_update_data pyfloat fmt entry hass net now c =
    (case update_try pyfloat fmt entry hass net now c of
       (c1, posts, Inl (PyException msg)) \<Rightarrow>
         (let c2 = c1\<lparr>last_error := Some msg\<rparr> in (c2, posts, Inr (get_status_data entry c2)))
     | (c1, posts, Inr status) \<Rightarrow> (c1, posts, Inr status))"

definition async_shutdown :: "coordinator \<Rightarrow> coordinator" where
  "async_shutdown c = (if p_session c then c\<lparr>p_session := False\<rparr> else c)"

section \<open>sensor.py\<close>

definition STATUS_PENDING :: string where
  "STATUS_PENDING = ''pending''"

definition STATUS_OK :: string where
  "STATUS_OK = ''ok''"

definition STATUS_ERROR :: string where
  "STATUS_ERROR = ''error''"

definition native_value :: "coordinator \<Rightarrow> string" where
  "native_value c =
    (if truthy (last_error c) then STATUS_ERROR
     else if last_upload c \<noteq> None then STATUS_OK
     else STATUS_PENDING)"

text \<open>
  The attribute dict of the status sensor, \<open>None\<close> for a key the dict does not have;
  \<open>box\<close> is the sensor's own \<open>_box_id\<close>.
\<close>

record state_attributes =
  a_box_id :: string
  a_upload_count :: int
  a_last_upload :: "int option"
  a_next_upload :: "int option"
  a_last_error :: "string option"
  a_last_request :: "request option"

definition extra_state_attributes :: "string \<Rightarrow> ConfigEntry \<Rightarrow> coordinator \<Rightarrow> state_attributes" where
  "extra_state_attributes box entry c =
    \<lparr>a_box_id = box,
     a_upload_count = upload_count c,
     a_last_upload = last_upload c,
     a_next_upload = next_upload c,
     a_last_error = (if truthy (last_error c) then last_error c else None),
     a_last_request =
       (if debug_mode entry \<and> last_request_data c \<noteq> None then last_request_data c else None)\<rparr>"

definition available :: "coordinator \<Rightarrow> bool" where
  "available c = True"

section \<open>config_flow.py\<close>

definition is_hex :: "char \<Rightarrow> bool" where
  \<comment> \<open>the character class \<open>[a-fA-F0-9]\<close>\<close>
  "is_hex ch = (ch \<in> set ''abcdefABCDEF0123456789'')"

definition hex24_match :: "string \<Rightarrow> bool" where
  \<comment> \<open>\<open>re.compile(r"^[a-fA-F0-9]{24}$").match\<close>; \<open>$\<close> also matches before a final newline\<close>
  "hex24_match s =
    (length (take 24 s) = 24 \<and> list_all is_hex (take 24 s) \<and> drop 24 s \<in> {[], [CHR 0x0A]})"

definition validate_box_id :: "string \<Rightarrow> bool" where
  "validate_box_id box_id = hex24_match box_id"

definition validate_sensor_id :: "string \<Rightarrow> bool" where
  "validate_sensor_id sensor_id = hex24_match sensor_id"

definition is_space :: "char \<Rightarrow> bool" where
  \<comment> \<open>the code points below 256 that \<open>str.strip()\<close> removes\<close>
  "is_space ch =
    (ch \<in> {CHR 0x09, CHR 0x0A, CHR 0x0B, CHR 0x0C, CHR 0x0D, CHR 0x1C, CHR 0x1D, CHR 0x1E,
            CHR 0x1F, CHR 0x20, CHR 0x85, CHR 0xA0})"

definition strip :: "string \<Rightarrow> string" where
  "strip s = rev (dropWhile is_space (rev (dropWhile is_space s)))"

text \<open>
  What a step of a flow returns: \<open>async_show_form\<close> with its step id and
  \<open>errors["base"]\<close>, \<open>async_create_entry\<close> with its title and data, or the abort of
  \<open>_abort_if_unique_id_configured\<close>. The form schemas are left out. The state of
  \<open>OpenSenseMapConfigFlow\<close> is its \<open>_data\<close> dict.
\<close>

datatype flow_result =
    Form string "string option"
  | CreateEntry string ConfDict
  | Abort string

definition async_step_options ::
  "ConfDict \<Rightarrow> ConfDict option \<Rightarrow> ConfDict \<times> (pyexc + flow_result)" where
  "async_step_options self_data user_input =
    (case user_input of
       None \<Rightarrow> (self_data, Inr (Form ''options'' None))
     | Some ui \<Rightarrow>
         (let d1 = self_data\<lparr>nums := (nums self_data)
                     (CONF_UPDATE_INTERVAL \<mapsto>
                        (case nums ui CONF_UPDATE_INTERVAL of
                           None \<Rightarrow> DEFAULT_UPDATE_INTERVAL | Some i \<Rightarrow> i))\<rparr>;
              d2 = d1\<lparr>flags := (flags d1)
                     (CONF_DEBUG_MODE \<mapsto>
                        (case flags ui CONF_DEBUG_MODE of None \<Rightarrow> False | Some b \<Rightarrow> b))\<rparr>
          in (case strs d2 CONF_BOX_ID of
                None \<Rightarrow> (d2, Inl (PyException ([CHR 0x27] @ CONF_BOX_ID @ [CHR 0x27])))
              | Some box \<Rightarrow>
                  (d2, Inr (CreateEntry (''OpenSenseMap ('' @ take 8 box @ ''...)'') d2)))))"

definition sensors_step ::
  "ConfDict \<Rightarrow> sensor_config \<Rightarrow> bool \<times> ConfDict \<times> string option \<Rightarrow>
   bool \<times> ConfDict \<times> string option" where
  \<comment> \<open>one pass of the loop of \<open>async_step_sensors\<close> over
      \<open>(has_valid_pair, self._data, errors["base"])\<close>\<close>
  "sensors_step user_input cfg acc =
    (case cfg of (sensor_id_key, entity_key, label, measurement_type) \<Rightarrow>
     (case acc of (has_valid_pair, self_data, errors) \<Rightarrow>
      (let sensor_id = strip (case strs user_input sensor_id_key of None \<Rightarrow> [] | Some s \<Rightarrow> s);
           entity_id = strs user_input entity_key
       in (case entity_id of
             Some eid \<Rightarrow>
               if truthy (Some sensor_id) \<and> truthy entity_id then
                 (True,
                  self_data\<lparr>strs := (strs self_data)(sensor_id_key \<mapsto> sensor_id, entity_key \<mapsto> eid)\<rparr>,
                  errors)
               else if truthy (Some sensor_id) \<or> truthy entity_id then
                 (has_valid_pair, self_data, Some ''incomplete_sensor_pair'')
               else acc
           | None \<Rightarrow>
               if truthy (Some sensor_id) then
                 (has_valid_pair, self_data, Some ''incomplete_sensor_pair'')
               else acc))))"

definition async_step_sensors ::
  "ConfDict \<Rightarrow> ConfDict option \<Rightarrow> ConfDict \<times> (pyexc + flow_result)" where
  "async_step_sensors self_data user_input =
    (case user_input of
       None \<Rightarrow> (self_data, Inr (Form ''sensors'' None))
     | Some ui \<Rightarrow>
         (case fold (sensors_step ui) SENSOR_CONFIGS (False, self_data, None) of
            (has_valid_pair, d1, errors) \<Rightarrow>
              (let errors1 =
                 (if \<not> has_valid_pair \<and> errors = None then Some ''no_sensor_configured''
                  else errors)
               in if errors1 = None then async_step_options d1 None
                  else (d1, Inr (Form ''sensors'' errors1)))))"

definition async_step_user ::
  "string list \<Rightarrow> ConfDict \<Rightarrow> ConfDict option \<Rightarrow> ConfDict \<times> (pyexc + flow_result)" where
  \<comment> \<open>\<open>configured\<close>: the unique ids of the entries that exist already\<close>
  "async_step_user configured self_data user_input =
    (case user_input of
       None \<Rightarrow> (self_data, Inr (Form ''user'' None))
     | Some ui \<Rightarrow>
         (case strs ui CONF_BOX_ID of
            None \<Rightarrow> (self_data, Inl (PyException ([CHR 0x27] @ CONF_BOX_ID @ [CHR 0x27])))
          | Some raw \<Rightarrow>
              (let box_id = strip raw;
                   access_token =
                     strip (case strs ui CONF_ACCESS_TOKEN of None \<Rightarrow> [] | Some t \<Rightarrow> t)
               in if \<not> validate_box_id box_id then
                    (self_data, Inr (Form ''user'' (Some ''invalid_box_id'')))
                  else if box_id \<in> set configured then
                    (self_data, Inr (Abort ''already_configured''))
                  else
                    (let d1 = self_data\<lparr>strs := (strs self_data)(CONF_BOX_ID \<mapsto> box_id)\<rparr>;
                         d2 = (if access_token \<noteq> []
                               then d1\<lparr>strs := (strs d1)(CONF_ACCESS_TOKEN \<mapsto> access_token)\<rparr>
                               else d1)
                     in async_step_sensors d2 None))))"

definition init_step ::
  "ConfDict \<Rightarrow> sensor_config \<Rightarrow> ConfDict \<times> bool \<Rightarrow> ConfDict \<times> bool" where
  \<comment> \<open>one pass of the loop of \<open>OpenSenseMapOptionsFlow.async_step_init\<close> over
      \<open>(valid_data, has_valid_pair)\<close>\<close>
  "init_step user_input cfg acc =
    (case cfg of (sensor_id_key, entity_key, label, measurement_type) \<Rightarrow>
     (case acc of (valid_data, has_valid_pair) \<Rightarrow>
      (let sensor_id =
             (case strs user_input sensor_id_key of
                None \<Rightarrow> []
              | Some s \<Rightarrow> if s = [] then [] else strip s);
           entity_id = strs user_input entity_key
       in (case entity_id of
             Some eid \<Rightarrow>
               if truthy (Some sensor_id) \<and> truthy entity_id then
                 (valid_data\<lparr>strs := (strs valid_data)(sensor_id_key \<mapsto> sensor_id, entity_key \<mapsto> eid)\<rparr>,
                  True)
               else acc
           | None \<Rightarrow> acc))))"

definition async_step_init :: "ConfDict option \<Rightarrow> flow_result" where
  "async_step_init user_input =
    (case user_input of
       None \<Rightarrow> Form ''init'' None
     | Some ui \<Rightarrow>
         (case fold (init_step ui) SENSOR_CONFIGS (empty_dict, False) of
            (valid_data, has_valid_pair) \<Rightarrow>
              if \<not> has_valid_pair then Form ''init'' (Some ''no_sensor_configured'')
              else
                (let d1 = valid_data\<lparr>nums := (nums valid_data)
                            (CONF_UPDATE_INTERVAL \<mapsto>
                               (case nums ui CONF_UPDATE_INTERVAL of
                                  None \<Rightarrow> DEFAULT_UPDATE_INTERVAL | Some i \<Rightarrow> i))\<rparr>;
                     d2 = d1\<lparr>flags := (flags d1)
                            (CONF_DEBUG_MODE \<mapsto>
                               (case flags ui CONF_DEBUG_MODE of None \<Rightarrow> False | Some b \<Rightarrow> b))\<rparr>
                 in CreateEntry [] d2)))"

section \<open>Notions used in the statements\<close>

definition active :: "ConfigEntry \<Rightarrow> sensor_config \<Rightarrow> bool" where
  "active entry cfg =
    (case cfg of (sensor_id_key, entity_key, label, measurement_type) \<Rightarrow>
       truthy (get_str entry sensor_id_key) \<and> truthy (get_str entry entity_key))"

definition unavailable_sources :: "ConfigEntry \<Rightarrow> HomeAssistant \<Rightarrow> string list" where
  "unavailable_sources entry hass =
    [eid. (sensor_id_key, entity_key, label, measurement_type) \<leftarrow> SENSOR_CONFIGS,
          active entry (sensor_id_key, entity_key, label, measurement_type),
          Some eid \<leftarrow> [get_str entry entity_key],
          unusable (states hass eid)]"

definition unavailable_of :: "ConfigEntry \<Rightarrow> HomeAssistant \<Rightarrow> sensor_config \<Rightarrow> string list" where
  "unavailable_of entry hass cfg =
    (if active entry cfg
     then (case get_str entry (fst (snd cfg)) of
             None \<Rightarrow> []
           | Some eid \<Rightarrow> if unusable (states hass eid) then [eid] else [])
     else [])"

definition request_of ::
  "(string \<Rightarrow> real option) \<Rightarrow> (real \<Rightarrow> string) \<Rightarrow> ConfigEntry \<Rightarrow> HomeAssistant \<Rightarrow>
   coordinator \<Rightarrow> request" where
  "request_of pyfloat fmt entry hass c =
    \<lparr>url = API_URL (p_box_id c),
     headers = request_headers (p_access_token c),
     payload = collect_sensor_data pyfloat fmt entry hass\<rparr>"

definition snapshot_of ::
  "(string \<Rightarrow> real option) \<Rightarrow> (real \<Rightarrow> string) \<Rightarrow> ConfigEntry \<Rightarrow> HomeAssistant \<Rightarrow>
   coordinator \<Rightarrow> request" where
  "snapshot_of pyfloat fmt entry hass c =
    \<lparr>url = API_URL (p_box_id c),
     headers = redact (request_headers (p_access_token c)),
     payload = collect_sensor_data pyfloat fmt entry hass\<rparr>"

definition after_post :: "net_outcome \<Rightarrow> int \<Rightarrow> coordinator \<Rightarrow> coordinator" where
  "after_post outcome now c =
    (case outcome of
       Response status error_text \<Rightarrow>
         if status \<in> {200, 201}
         then c\<lparr>last_upload := Some now, upload_count := upload_count c + 1, last_error := None\<rparr>
         else c\<lparr>last_error := Some (''HTTP '' @ str_int status @ '': '' @ error_text)\<rparr>
     | TimeoutError \<Rightarrow> c\<lparr>last_error := Some ''Request timeout''\<rparr>
     | ClientError msg \<Rightarrow> c\<lparr>last_error := Some (if msg = [] then ''Unknown error'' else msg)\<rparr>
     | OtherException msg \<Rightarrow> c\<lparr>last_error := Some msg\<rparr>)"

definition before_post ::
  "(string \<Rightarrow> real option) \<Rightarrow> (real \<Rightarrow> string) \<Rightarrow> ConfigEntry \<Rightarrow> HomeAssistant \<Rightarrow>
   coordinator \<Rightarrow> coordinator" where
  "before_post pyfloat fmt entry hass c =
    (if debug_mode entry
     then c\<lparr>p_session := True, last_request_data := Some (snapshot_of pyfloat fmt entry hass c)\<rparr>
     else c\<lparr>p_session := True\<rparr>)"

section \<open>Example data\<close>

text \<open>
  A configured box with a temperature and a humidity sensor, the same entry after an
  update, a state machine that reports the two readings given, and the inputs of a run of
  the config flow; \<open>ex_pyfloat\<close> and \<open>ex_fmt\<close> agree with \<open>float\<close> and with
  the two-decimal format on the readings the examples use.
\<close>

definition ex_box :: string where
  "ex_box = ''5f2b56f4263635001c1dd1fb''"

definition ex_sensor_t :: string where
  "ex_sensor_t = ''5f2b56f4263635001c1dd1fe''"

definition ex_sensor_h :: string where
  "ex_sensor_h = ''5f2b56f4263635001c1dd1ff''"

definition ex_entry :: "bool \<Rightarrow> ConfigEntry" where
  "ex_entry dbg =
    \<lparr>data =
       \<lparr>strs = map_of
          [(CONF_BOX_ID, ex_box),
           (CONF_ACCESS_TOKEN, ''s3cr3t''),
           (CONF_SENSOR_ID_TEMPERATURE, ex_sensor_t),
           (CONF_ENTITY_TEMPERATURE, ''sensor.temp''),
           (CONF_SENSOR_ID_HUMIDITY, ex_sensor_h),
           (CONF_ENTITY_HUMIDITY, ''sensor.hum'')],
        nums = map_of [(CONF_UPDATE_INTERVAL, 300)],
        flags = map_of [(CONF_DEBUG_MODE, dbg)]\<rparr>,
     options = empty_dict\<rparr>"

definition ex_hass :: "string \<Rightarrow> string \<Rightarrow> HomeAssistant" where
  "ex_hass t h =
    \<lparr>states = map_of
       [(''sensor.temp'', \<lparr>state = t, attributes = map_of [(''unit_of_measurement'', ''F'')]\<rparr>),
        (''sensor.hum'', \<lparr>state = h, attributes = map_of [(''unit_of_measurement'', ''%'')]\<rparr>)]\<rparr>"

definition ex_pyfloat :: "string \<Rightarrow> real option" where
  "ex_pyfloat s = (if s = ''212'' then Some 212 else if s = ''0.45'' then Some 0.45 else None)"

definition ex_fmt :: "real \<Rightarrow> string" where
  "ex_fmt v = (if v = 100 then ''100.00'' else if v = 45 then ''45.00'' else ''0.00'')"

definition ex_coordinator :: coordinator where
  "ex_coordinator =
    \<lparr>p_box_id = ex_box, p_access_token = Some ''s3cr3t'', p_session = False,
     last_upload = None, last_error = None, upload_count = 0, last_request_data = None,
     update_interval = 300\<rparr>"

definition ex_stale :: request where
  "ex_stale =
    \<lparr>url = API_URL ex_box,
     headers = redact (request_headers (Some ''s3cr3t'')),
     payload = [(ex_sensor_t, ''99.00'')]\<rparr>"

definition ex_box_new :: string where
  "ex_box_new = ''60a1c0ffee263635001c1d00''"

definition ex_entry_updated :: "bool \<Rightarrow> ConfigEntry" where
  "ex_entry_updated dbg =
    \<lparr>data =
       \<lparr>strs = map_of
          [(CONF_BOX_ID, ex_box_new),
           (CONF_ACCESS_TOKEN, ''n3wt0k3n''),
           (CONF_SENSOR_ID_TEMPERATURE, ex_sensor_t),
           (CONF_ENTITY_TEMPERATURE, ''sensor.temp''),
           (CONF_SENSOR_ID_HUMIDITY, ex_sensor_h),
           (CONF_ENTITY_HUMIDITY, ''sensor.hum'')],
        nums = map_of [(CONF_UPDATE_INTERVAL, 600)],
        flags = map_of [(CONF_DEBUG_MODE, dbg)]\<rparr>,
     options = empty_dict\<rparr>"

definition ex_user_input :: ConfDict where
  "ex_user_input =
    \<lparr>strs = map_of [(CONF_BOX_ID, '' 5f2b56f4263635001c1dd1fb ''), (CONF_ACCESS_TOKEN, ''s3cr3t'')],
     nums = Map.empty, flags = Map.empty\<rparr>"

definition ex_sensors_input :: ConfDict where
  "ex_sensors_input =
    \<lparr>strs = map_of
       [(CONF_ENTITY_TEMPERATURE, ''sensor.temp''), (CONF_SENSOR_ID_TEMPERATURE, ''not-a-hex-id'')],
     nums = Map.empty, flags = Map.empty\<rparr>"

definition ex_flow_user :: "ConfDict \<times> (pyexc + flow_result)" where
  "ex_flow_user = async_step_user [] empty_dict (Some ex_user_input)"

definition ex_flow_sensors :: "ConfDict \<times> (pyexc + flow_result)" where
  "ex_flow_sensors = async_step_sensors (fst ex_flow_user) (Some ex_sensors_input)"

definition ex_flow_options :: "ConfDict \<times> (pyexc + flow_result)" where
  "ex_flow_options = async_step_options (fst ex_flow_sensors) (Some empty_dict)"

section \<open>Unfolding rules\<close>

lemmas const_defs =
  DOMAIN_def API_URL_def SOFTWARE_TYPE_def DEFAULT_UPDATE_INTERVAL_def MIN_UPDATE_INTERVAL_def
  CONF_BOX_ID_def CONF_ACCESS_TOKEN_def CONF_UPDATE_INTERVAL_def CONF_DEBUG_MODE_def
  CONF_SENSOR_ID_PM25_def CONF_SENSOR_ID_PM10_def CONF_SENSOR_ID_TEMPERATURE_def
  CONF_SENSOR_ID_HUMIDITY_def CONF_SENSOR_ID_PRESSURE_def
  CONF_ENTITY_PM25_def CONF_ENTITY_PM10_def CONF_ENTITY_TEMPERATURE_def
  CONF_ENTITY_HUMIDITY_def CONF_ENTITY_PRESSURE_def
  MEASUREMENT_PM_def MEASUREMENT_TEMPERATURE_def MEASUREMENT_HUMIDITY_def
  MEASUREMENT_PRESSURE_def


declare str_nat.simps [simp del]

section \<open>The loops and the cases of a cycle\<close>

lemma falsy_truthy: "falsy x = (\<not> truthy x)"
  by (cases x) (simp_all add: falsy_def truthy_def)

lemma availability_step_eq:
  "availability_step entry hass cfg acc = acc @ unavailable_of entry hass cfg"
  by (cases cfg)
     (simp add: availability_step_def unavailable_of_def active_def falsy_truthy truthy_def
           split: option.splits)

lemma availability_fold:
  "fold (availability_step entry hass) cfgs acc =
   acc @ concat (map (unavailable_of entry hass) cfgs)"
proof (induction cfgs arbitrary: acc)
  case Nil
  show ?case by simp
next
  case (Cons cfg cfgs)
  have "fold (availability_step entry hass) (cfg # cfgs) acc =
        fold (availability_step entry hass) cfgs (availability_step entry hass cfg acc)"
    by simp
  also have "\<dots> = (acc @ unavailable_of entry hass cfg) @ concat (map (unavailable_of entry hass) cfgs)"
    by (simp only: Cons.IH availability_step_eq)
  finally show ?case by simp
qed

lemma unavailable_sources_eq:
  "unavailable_sources entry hass = concat (map (unavailable_of entry hass) SENSOR_CONFIGS)"
  unfolding unavailable_sources_def
  by (rule arg_cong [where f = concat], rule map_cong)
     (auto simp: unavailable_of_def split: option.splits)

lemma all_sensors_available_eq:
  "all_sensors_available entry hass =
   (unavailable_sources entry hass = [], unavailable_sources entry hass)"
  by (simp add: all_sensors_available_def unavailable_sources_eq availability_fold Let_def)

lemma unavailable_sources_member:
  assumes "(sk, ek, lbl, mt) \<in> set SENSOR_CONFIGS"
    and "get_str entry sk = Some sid" and "sid \<noteq> []"
    and "get_str entry ek = Some eid" and "eid \<noteq> []"
    and "unusable (states hass eid)"
  shows "eid \<in> set (unavailable_sources entry hass)"
  using assms unfolding unavailable_sources_def active_def truthy_def
  by force

lemma push_empty:
  assumes "collect_sensor_data pyfloat fmt entry hass = []"
  shows "push_sensor_data pyfloat fmt entry hass net c = (c, [], Inr (True, None))"
  using assms by (simp add: push_sensor_data_def)

lemma push_snapshot:
  "last_request_data (fst (push_sensor_data pyfloat fmt entry hass net c)) =
    (if collect_sensor_data pyfloat fmt entry hass \<noteq> [] \<and> debug_mode entry
     then Some (snapshot_of pyfloat fmt entry hass c)
     else last_request_data c)"
  by (simp add: push_sensor_data_def Let_def snapshot_of_def)

lemma push_nonempty:
  assumes "collect_sensor_data pyfloat fmt entry hass \<noteq> []" and "p_session c"
  shows "push_sensor_data pyfloat fmt entry hass net c =
    ((if debug_mode entry
      then c\<lparr>last_request_data := Some (snapshot_of pyfloat fmt entry hass c)\<rparr> else c),
     [request_of pyfloat fmt entry hass c],
     (case net (request_of pyfloat fmt entry hass c) of
        Response status error_text \<Rightarrow>
          if status \<in> {200, 201} then Inr (True, None)
          else Inr (False, Some (''HTTP '' @ str_int status @ '': '' @ error_text))
      | TimeoutError \<Rightarrow> Inr (False, Some ''Request timeout'')
      | ClientError msg \<Rightarrow> Inr (False, Some msg)
      | OtherException msg \<Rightarrow> Inl (PyException msg)))"
  using assms by (simp add: push_sensor_data_def Let_def request_of_def snapshot_of_def)

lemma session_set: "(if \<not> p_session c then c\<lparr>p_session := True\<rparr> else c) = c\<lparr>p_session := True\<rparr>"
  by simp

lemma cycle_gate_closed:
  assumes "unavailable_sources entry hass \<noteq> []"
  shows "async_update_data pyfloat fmt entry hass net now c =
    (c\<lparr>last_error := Some (''Sensors unavailable: '' @ join '', '' (unavailable_sources entry hass))\<rparr>,
     [],
     Inr (get_status_data entry
       (c\<lparr>last_error := Some (''Sensors unavailable: '' @ join '', '' (unavailable_sources entry hass))\<rparr>)))"
  using assms
  by (simp add: async_update_data_def update_try_def all_sensors_available_eq Let_def)

lemma cycle_empty:
  assumes "unavailable_sources entry hass = []"
    and "collect_sensor_data pyfloat fmt entry hass = []"
  shows "async_update_data pyfloat fmt entry hass net now c =
    (c\<lparr>p_session := True, last_upload := Some now, upload_count := upload_count c + 1,
        last_error := None\<rparr>,
     [],
     Inr (get_status_data entry
       (c\<lparr>p_session := True, last_upload := Some now, upload_count := upload_count c + 1,
          last_error := None\<rparr>)))"
  using assms
  by (simp add: async_update_data_def update_try_def all_sensors_available_eq Let_def
        session_set push_empty)

lemma before_post_fields:
  "last_upload (before_post pyfloat fmt entry hass c) = last_upload c"
  "upload_count (before_post pyfloat fmt entry hass c) = upload_count c"
  "last_error (before_post pyfloat fmt entry hass c) = last_error c"
  "p_box_id (before_post pyfloat fmt entry hass c) = p_box_id c"
  "p_access_token (before_post pyfloat fmt entry hass c) = p_access_token c"
  "update_interval (before_post pyfloat fmt entry hass c) = update_interval c"
  "last_request_data (before_post pyfloat fmt entry hass c) =
     (if debug_mode entry then Some (snapshot_of pyfloat fmt entry hass c) else last_request_data c)"
  by (simp_all add: before_post_def)

lemma after_post_fields:
  "p_box_id (after_post outcome now c) = p_box_id c"
  "p_access_token (after_post outcome now c) = p_access_token c"
  "update_interval (after_post outcome now c) = update_interval c"
  "last_request_data (after_post outcome now c) = last_request_data c"
  by (cases outcome; simp add: after_post_def)+

lemma cycle_post:
  assumes "unavailable_sources entry hass = []"
    and "collect_sensor_data pyfloat fmt entry hass \<noteq> []"
  shows "async_update_data pyfloat fmt entry hass net now c =
    (after_post (net (request_of pyfloat fmt entry hass c)) now
       (before_post pyfloat fmt entry hass c),
     [request_of pyfloat fmt entry hass c],
     Inr (get_status_data entry
       (after_post (net (request_of pyfloat fmt entry hass c)) now
         (before_post pyfloat fmt entry hass c))))"
proof -
  have r: "request_of pyfloat fmt entry hass (c\<lparr>p_session := True\<rparr>) = request_of pyfloat fmt entry hass c"
    by (simp add: request_of_def)
  have s: "snapshot_of pyfloat fmt entry hass (c\<lparr>p_session := True\<rparr>) = snapshot_of pyfloat fmt entry hass c"
    by (simp add: snapshot_of_def)
  show ?thesis
    using assms
    by (cases "net (request_of pyfloat fmt entry hass c)")
       (simp_all add: async_update_data_def update_try_def all_sensors_available_eq Let_def
          session_set push_nonempty r s after_post_def before_post_def)
qed

lemma gate_open: "fst (all_sensors_available entry hass) = (unavailable_sources entry hass = [])"
  by (simp add: all_sensors_available_eq)

lemma try_raises:
  assumes "unavailable_sources entry hass = []"
    and "collect_sensor_data pyfloat fmt entry hass \<noteq> []"
    and "net (request_of pyfloat fmt entry hass c) = OtherException msg"
  shows "snd (snd (update_try pyfloat fmt entry hass net now c)) = Inl (PyException msg)"
proof -
  have r: "request_of pyfloat fmt entry hass (c\<lparr>p_session := True\<rparr>) = request_of pyfloat fmt entry hass c"
    by (simp add: request_of_def)
  show ?thesis
    using assms
    by (simp add: update_try_def all_sensors_available_eq Let_def session_set push_nonempty r)
qed

lemma cycle_returns_status:
  "snd (snd (async_update_data pyfloat fmt entry hass net now c)) =
   Inr (get_status_data entry (fst (async_update_data pyfloat fmt entry hass net now c)))"
proof (cases "unavailable_sources entry hass = []")
  case False
  then show ?thesis by (simp add: cycle_gate_closed)
next
  case True
  show ?thesis
  proof (cases "collect_sensor_data pyfloat fmt entry hass = []")
    case True
    with \<open>unavailable_sources entry hass = []\<close> show ?thesis by (simp add: cycle_empty)
  next
    case False
    with \<open>unavailable_sources entry hass = []\<close> show ?thesis by (simp add: cycle_post)
  qed
qed

lemma after_post_frame:
  "last_error (after_post outcome now c) \<noteq> None \<Longrightarrow>
   last_upload (after_post outcome now c) = last_upload c \<and>
   upload_count (after_post outcome now c) = upload_count c"
  by (cases outcome) (simp_all add: after_post_def split: if_splits)

lemma after_post_progress:
  "last_error (after_post outcome now c) \<noteq> None \<or>
   upload_count (after_post outcome now c) = upload_count c + 1"
  by (cases outcome) (simp_all add: after_post_def)

lemma cycle_frame:
  assumes "last_error (fst (async_update_data pyfloat fmt entry hass net now c)) \<noteq> None"
  shows "last_upload (fst (async_update_data pyfloat fmt entry hass net now c)) = last_upload c \<and>
         upload_count (fst (async_update_data pyfloat fmt entry hass net now c)) = upload_count c"
proof (cases "unavailable_sources entry hass = []")
  case False
  then show ?thesis by (simp add: cycle_gate_closed)
next
  case True
  show ?thesis
  proof (cases "collect_sensor_data pyfloat fmt entry hass = []")
    case True
    with \<open>unavailable_sources entry hass = []\<close> assms show ?thesis by (simp add: cycle_empty)
  next
    case False
    with \<open>unavailable_sources entry hass = []\<close> assms show ?thesis
      using after_post_frame [of "net (request_of pyfloat fmt entry hass c)" now
          "before_post pyfloat fmt entry hass c"]
      by (simp add: cycle_post before_post_fields)
  qed
qed

lemma cycle_progress:
  "last_error (fst (async_update_data pyfloat fmt entry hass net now c)) \<noteq> None \<or>
   upload_count (fst (async_update_data pyfloat fmt entry hass net now c)) = upload_count c + 1"
proof (cases "unavailable_sources entry hass = []")
  case False
  then show ?thesis by (simp add: cycle_gate_closed)
next
  case True
  show ?thesis
  proof (cases "collect_sensor_data pyfloat fmt entry hass = []")
    case True
    with \<open>unavailable_sources entry hass = []\<close> show ?thesis by (simp add: cycle_empty)
  next
    case False
    with \<open>unavailable_sources entry hass = []\<close> show ?thesis
      using after_post_progress [of "net (request_of pyfloat fmt entry hass c)" now
          "before_post pyfloat fmt entry hass c"]
      by (simp add: cycle_post before_post_fields)
  qed
qed

lemma cycle_handler:
  assumes "snd (snd (update_try pyfloat fmt entry hass net now c)) = Inl (PyException msg)"
  shows "last_error (fst (async_update_data pyfloat fmt entry hass net now c)) = Some msg"
proof -
  obtain c1 posts r where t: "update_try pyfloat fmt entry hass net now c = (c1, posts, r)"
    by (cases "update_try pyfloat fmt entry hass net now c") auto
  with assms have "r = Inl (PyException msg)" by simp
  with t show ?thesis by (simp add: async_update_data_def Let_def)
qed

lemma cycle_posts:
  assumes "fst (snd (async_update_data pyfloat fmt entry hass net now c)) = [req]"
  shows "unavailable_sources entry hass = [] \<and> collect_sensor_data pyfloat fmt entry hass \<noteq> [] \<and>
         req = request_of pyfloat fmt entry hass c"
proof (cases "unavailable_sources entry hass = []")
  case False
  with assms show ?thesis by (simp add: cycle_gate_closed)
next
  case True
  show ?thesis
  proof (cases "collect_sensor_data pyfloat fmt entry hass = []")
    case True
    with \<open>unavailable_sources entry hass = []\<close> assms show ?thesis by (simp add: cycle_empty)
  next
    case False
    with \<open>unavailable_sources entry hass = []\<close> assms show ?thesis by (simp add: cycle_post)
  qed
qed

lemma cycle_snapshot:
  "last_request_data (fst (async_update_data pyfloat fmt entry hass net now c)) =
    (if debug_mode entry \<and> unavailable_sources entry hass = [] \<and>
        collect_sensor_data pyfloat fmt entry hass \<noteq> []
     then Some (snapshot_of pyfloat fmt entry hass c)
     else last_request_data c)"
proof (cases "unavailable_sources entry hass = []")
  case False
  then show ?thesis by (simp add: cycle_gate_closed)
next
  case True
  show ?thesis
  proof (cases "collect_sensor_data pyfloat fmt entry hass = []")
    case True
    with \<open>unavailable_sources entry hass = []\<close> show ?thesis by (simp add: cycle_empty)
  next
    case False
    with \<open>unavailable_sources entry hass = []\<close> show ?thesis
      by (simp add: cycle_post after_post_fields before_post_fields)
  qed
qed

lemma cycle_posts_eq:
  "fst (snd (async_update_data pyfloat fmt entry hass net now c)) =
    (if unavailable_sources entry hass = [] \<and> collect_sensor_data pyfloat fmt entry hass \<noteq> []
     then [request_of pyfloat fmt entry hass c] else [])"
proof (cases "unavailable_sources entry hass = []")
  case False
  then show ?thesis by (simp add: cycle_gate_closed)
next
  case True
  show ?thesis
  proof (cases "collect_sensor_data pyfloat fmt entry hass = []")
    case True
    with \<open>unavailable_sources entry hass = []\<close> show ?thesis by (simp add: cycle_empty)
  next
    case False
    with \<open>unavailable_sources entry hass = []\<close> show ?thesis by (simp add: cycle_post)
  qed
qed

lemma cycle_cached:
  "p_box_id (fst (async_update_data pyfloat fmt entry hass net now c)) = p_box_id c \<and>
   p_access_token (fst (async_update_data pyfloat fmt entry hass net now c)) = p_access_token c \<and>
   update_interval (fst (async_update_data pyfloat fmt entry hass net now c)) = update_interval c"
proof (cases "unavailable_sources entry hass = []")
  case False
  then show ?thesis by (simp add: cycle_gate_closed)
next
  case True
  show ?thesis
  proof (cases "collect_sensor_data pyfloat fmt entry hass = []")
    case True
    with \<open>unavailable_sources entry hass = []\<close> show ?thesis by (simp add: cycle_empty)
  next
    case False
    with \<open>unavailable_sources entry hass = []\<close> show ?thesis
      by (simp add: cycle_post after_post_fields before_post_fields)
  qed
qed

lemma init_cached:
  assumes "OpenSenseMapCoordinator_init initial = Some built"
  shows "strs (data initial) CONF_BOX_ID = Some (p_box_id built)
    \<and> p_access_token built = strs (data initial) CONF_ACCESS_TOKEN
    \<and> update_interval built =
        (case nums (options initial) CONF_UPDATE_INTERVAL of
           Some i \<Rightarrow> i
         | None \<Rightarrow>
             (case nums (data initial) CONF_UPDATE_INTERVAL of
                Some i \<Rightarrow> i
              | None \<Rightarrow> DEFAULT_UPDATE_INTERVAL))"
  using assms
  by (auto simp: OpenSenseMapCoordinator_init_def split: option.splits)

lemma cycle_last_error:
  "last_error (fst (async_update_data pyfloat fmt entry hass net now c)) =
    (if unavailable_sources entry hass \<noteq> []
     then Some (''Sensors unavailable: '' @ join '', '' (unavailable_sources entry hass))
     else if collect_sensor_data pyfloat fmt entry hass = [] then None
     else (case net (request_of pyfloat fmt entry hass c) of
             Response status body \<Rightarrow>
               if status \<in> {200, 201} then None
               else Some (''HTTP '' @ str_int status @ '': '' @ body)
           | TimeoutError \<Rightarrow> Some ''Request timeout''
           | ClientError msg \<Rightarrow> Some (if msg = [] then ''Unknown error'' else msg)
           | OtherException msg \<Rightarrow> Some msg))"
proof (cases "unavailable_sources entry hass = []")
  case False
  then show ?thesis by (simp add: cycle_gate_closed)
next
  case True
  show ?thesis
  proof (cases "collect_sensor_data pyfloat fmt entry hass = []")
    case True
    with \<open>unavailable_sources entry hass = []\<close> show ?thesis by (simp add: cycle_empty)
  next
    case False
    with \<open>unavailable_sources entry hass = []\<close> show ?thesis
      by (cases "net (request_of pyfloat fmt entry hass c)")
         (simp_all add: cycle_post after_post_def before_post_fields)
  qed
qed

lemma after_post_success:
  "last_error (after_post outcome now c) = None \<Longrightarrow>
   upload_count (after_post outcome now c) = upload_count c + 1 \<and>
   last_upload (after_post outcome now c) = Some now"
  by (cases outcome) (simp_all add: after_post_def split: if_splits)

lemma cycle_success:
  assumes "last_error (fst (async_update_data pyfloat fmt entry hass net now c)) = None"
  shows "upload_count (fst (async_update_data pyfloat fmt entry hass net now c)) = upload_count c + 1 \<and>
         last_upload (fst (async_update_data pyfloat fmt entry hass net now c)) = Some now"
proof (cases "unavailable_sources entry hass = []")
  case False
  with assms show ?thesis by (simp add: cycle_gate_closed)
next
  case True
  show ?thesis
  proof (cases "collect_sensor_data pyfloat fmt entry hass = []")
    case True
    with \<open>unavailable_sources entry hass = []\<close> show ?thesis by (simp add: cycle_empty)
  next
    case False
    with \<open>unavailable_sources entry hass = []\<close> assms show ?thesis
      using after_post_success [of "net (request_of pyfloat fmt entry hass c)" now
          "before_post pyfloat fmt entry hass c"]
      by (simp add: cycle_post before_post_fields)
  qed
qed

lemma status_fields:
  "get_status_data entry c =
    \<lparr>d_last_upload = last_upload c,
     d_last_error = last_error c,
     d_upload_count = upload_count c,
     d_next_upload =
       (case last_upload c of Some t \<Rightarrow> Some (t + update_interval c) | None \<Rightarrow> None),
     d_box_id = p_box_id c,
     d_last_request = (if debug_mode entry then last_request_data c else None)\<rparr>"
  by (simp add: get_status_data_def next_upload_def)

section \<open>The examples, evaluated\<close>

lemma ex_get_str:
  "get_str (ex_entry dbg) CONF_SENSOR_ID_PM25 = None"
  "get_str (ex_entry dbg) CONF_ENTITY_PM25 = None"
  "get_str (ex_entry dbg) CONF_SENSOR_ID_PM10 = None"
  "get_str (ex_entry dbg) CONF_ENTITY_PM10 = None"
  "get_str (ex_entry dbg) CONF_SENSOR_ID_TEMPERATURE = Some ex_sensor_t"
  "get_str (ex_entry dbg) CONF_ENTITY_TEMPERATURE = Some ''sensor.temp''"
  "get_str (ex_entry dbg) CONF_SENSOR_ID_HUMIDITY = Some ex_sensor_h"
  "get_str (ex_entry dbg) CONF_ENTITY_HUMIDITY = Some ''sensor.hum''"
  "get_str (ex_entry dbg) CONF_SENSOR_ID_PRESSURE = None"
  "get_str (ex_entry dbg) CONF_ENTITY_PRESSURE = None"
  by (simp_all add: get_str_def ex_entry_def empty_dict_def const_defs)

lemma ex_states:
  "states (ex_hass t h) ''sensor.temp'' =
     Some \<lparr>state = t, attributes = map_of [(''unit_of_measurement'', ''F'')]\<rparr>"
  "states (ex_hass t h) ''sensor.hum'' =
     Some \<lparr>state = h, attributes = map_of [(''unit_of_measurement'', ''%'')]\<rparr>"
  by (simp_all add: ex_hass_def)

lemma ex_unavailable_sources:
  "unavailable_sources (ex_entry dbg) (ex_hass t h) =
    (if t \<in> {''unknown'', ''unavailable''} then [''sensor.temp''] else [])
    @ (if h \<in> {''unknown'', ''unavailable''} then [''sensor.hum''] else [])"
  by (simp add: unavailable_sources_eq SENSOR_CONFIGS_def unavailable_of_def active_def
        ex_get_str ex_states truthy_def unusable_def ex_sensor_t_def ex_sensor_h_def)

lemma ex_collect:
  "collect_sensor_data ex_pyfloat ex_fmt (ex_entry dbg) (ex_hass ''212'' ''0.45'') =
    [(ex_sensor_t, ''100.00''), (ex_sensor_h, ''45.00'')]"
  by (simp add: collect_sensor_data_def SENSOR_CONFIGS_def collect_step_def ex_get_str ex_states
        falsy_def unusable_def ex_pyfloat_def ex_fmt_def convert_value_def
        MEASUREMENT_TEMPERATURE_def MEASUREMENT_HUMIDITY_def MEASUREMENT_PRESSURE_def
        MEASUREMENT_PM_def degree_F_def ex_sensor_t_def ex_sensor_h_def)

lemma ex_collect_nothing:
  "collect_sensor_data ex_pyfloat ex_fmt (ex_entry dbg) (ex_hass ''n/a'' ''n/a'') = []"
  by (simp add: collect_sensor_data_def SENSOR_CONFIGS_def collect_step_def ex_get_str ex_states
        falsy_def unusable_def ex_pyfloat_def ex_sensor_t_def ex_sensor_h_def)

lemma ex_debug_mode: "debug_mode (ex_entry dbg) = dbg"
  by (simp add: debug_mode_def ex_entry_def empty_dict_def)

lemma ex_init: "OpenSenseMapCoordinator_init (ex_entry dbg) = Some ex_coordinator"
  by (simp add: OpenSenseMapCoordinator_init_def ex_entry_def ex_coordinator_def empty_dict_def
        const_defs)

lemma ex_cycle_post:
  "async_update_data ex_pyfloat ex_fmt (ex_entry dbg) (ex_hass ''212'' ''0.45'') (\<lambda>r. outcome) now
     ex_coordinator =
   (after_post outcome now
      (before_post ex_pyfloat ex_fmt (ex_entry dbg) (ex_hass ''212'' ''0.45'') ex_coordinator),
    [request_of ex_pyfloat ex_fmt (ex_entry dbg) (ex_hass ''212'' ''0.45'') ex_coordinator],
    Inr (get_status_data (ex_entry dbg)
      (after_post outcome now
        (before_post ex_pyfloat ex_fmt (ex_entry dbg) (ex_hass ''212'' ''0.45'') ex_coordinator))))"
  by (rule cycle_post) (simp_all add: ex_unavailable_sources ex_collect)

lemma ex_updated_get_str:
  "get_str (ex_entry_updated dbg) CONF_SENSOR_ID_PM25 = None"
  "get_str (ex_entry_updated dbg) CONF_ENTITY_PM25 = None"
  "get_str (ex_entry_updated dbg) CONF_SENSOR_ID_PM10 = None"
  "get_str (ex_entry_updated dbg) CONF_ENTITY_PM10 = None"
  "get_str (ex_entry_updated dbg) CONF_SENSOR_ID_TEMPERATURE = Some ex_sensor_t"
  "get_str (ex_entry_updated dbg) CONF_ENTITY_TEMPERATURE = Some ''sensor.temp''"
  "get_str (ex_entry_updated dbg) CONF_SENSOR_ID_HUMIDITY = Some ex_sensor_h"
  "get_str (ex_entry_updated dbg) CONF_ENTITY_HUMIDITY = Some ''sensor.hum''"
  "get_str (ex_entry_updated dbg) CONF_SENSOR_ID_PRESSURE = None"
  "get_str (ex_entry_updated dbg) CONF_ENTITY_PRESSURE = None"
  by (simp_all add: get_str_def ex_entry_updated_def empty_dict_def const_defs)

lemma ex_updated_unavailable_sources:
  "unavailable_sources (ex_entry_updated dbg) (ex_hass ''212'' ''0.45'') = []"
  by (simp add: unavailable_sources_eq SENSOR_CONFIGS_def unavailable_of_def active_def
        ex_updated_get_str ex_states truthy_def unusable_def ex_sensor_t_def ex_sensor_h_def)

lemma ex_updated_collect:
  "collect_sensor_data ex_pyfloat ex_fmt (ex_entry_updated dbg) (ex_hass ''212'' ''0.45'') =
    [(ex_sensor_t, ''100.00''), (ex_sensor_h, ''45.00'')]"
  by (simp add: collect_sensor_data_def SENSOR_CONFIGS_def collect_step_def ex_updated_get_str
        ex_states falsy_def unusable_def ex_pyfloat_def ex_fmt_def convert_value_def
        MEASUREMENT_TEMPERATURE_def MEASUREMENT_HUMIDITY_def MEASUREMENT_PRESSURE_def
        MEASUREMENT_PM_def degree_F_def ex_sensor_t_def ex_sensor_h_def)

lemma ex_updated_debug_mode: "debug_mode (ex_entry_updated dbg) = dbg"
  by (simp add: debug_mode_def ex_entry_updated_def empty_dict_def)

lemma ex_updated_data:
  "strs (data (ex_entry_updated dbg)) CONF_BOX_ID = Some ex_box_new"
  "strs (data (ex_entry_updated dbg)) CONF_ACCESS_TOKEN = Some ''n3wt0k3n''"
  by (simp_all add: ex_entry_updated_def const_defs)

lemma ex_headers:
  "request_headers (Some ''s3cr3t'') =
    [(''Content-Type'', ''application/json; charset=utf-8''),
     (''User-Agent'', ''HomeAssistant-OpenSenseMap/1.0.0''),
     (''Authorization'', ''Bearer s3cr3t'')]"
  by (simp add: request_headers_def SOFTWARE_TYPE_def)

lemma strip_examples:
  "strip '' 5f2b56f4263635001c1dd1fb '' = ''5f2b56f4263635001c1dd1fb''"
  "strip ''s3cr3t'' = ''s3cr3t''"
  "strip ''not-a-hex-id'' = ''not-a-hex-id''"
  "strip [] = []"
  by (simp_all add: strip_def is_space_def)

lemma validate_examples:
  "validate_box_id ''5f2b56f4263635001c1dd1fb''"
  "\<not> validate_sensor_id ''not-a-hex-id''"
  by (simp_all add: validate_box_id_def validate_sensor_id_def hex24_match_def is_hex_def)

lemma ex_flow_user_eq:
  "ex_flow_user =
    (\<lparr>strs = [CONF_BOX_ID \<mapsto> ''5f2b56f4263635001c1dd1fb'', CONF_ACCESS_TOKEN \<mapsto> ''s3cr3t''],
      nums = Map.empty, flags = Map.empty\<rparr>,
     Inr (Form ''sensors'' None))"
  by (simp add: ex_flow_user_def async_step_user_def ex_user_input_def strip_examples
        validate_examples async_step_sensors_def empty_dict_def const_defs)

lemma ex_flow_sensors_eq:
  "ex_flow_sensors =
    (\<lparr>strs = [CONF_BOX_ID \<mapsto> ''5f2b56f4263635001c1dd1fb'', CONF_ACCESS_TOKEN \<mapsto> ''s3cr3t'',
              CONF_SENSOR_ID_TEMPERATURE \<mapsto> ''not-a-hex-id'',
              CONF_ENTITY_TEMPERATURE \<mapsto> ''sensor.temp''],
      nums = Map.empty, flags = Map.empty\<rparr>,
     Inr (Form ''options'' None))"
  by (simp add: ex_flow_sensors_def ex_flow_user_eq async_step_sensors_def SENSOR_CONFIGS_def
        sensors_step_def ex_sensors_input_def strip_examples truthy_def async_step_options_def
        const_defs)

section \<open>Unit conversion: humidity\<close>

text \<open>
  C1 (as stated, refuted): a humidity value \<open>\<le> 0\<close> is passed through unchanged. The
  code scales every value \<open>\<le> 1\<close>, so the negative reading \<open>-0.5\<close> comes back as \<open>-50\<close>.
\<close>

theorem C1_negative_humidity_is_scaled:
  "convert_value MEASUREMENT_HUMIDITY (- 0.5) \<lparr>state = ''-0.5'', attributes = Map.empty\<rparr> = - 50
   \<and> convert_value MEASUREMENT_HUMIDITY (- 0.5) \<lparr>state = ''-0.5'', attributes = Map.empty\<rparr> \<noteq> - 0.5"
  by (simp add: convert_value_def const_defs)

text \<open>
  C1 (amended): for a humidity reading, the value is multiplied by 100 exactly when it is
  \<open>\<le> 1\<close> (zero and negative values included), and every value \<open>> 1\<close> is returned
  unchanged, whatever the unit attribute says.
\<close>

theorem C1_humidity_conversion:
  "(value \<le> 1 \<longrightarrow> convert_value MEASUREMENT_HUMIDITY value st = value * 100)
   \<and> (value > 1 \<longrightarrow> convert_value MEASUREMENT_HUMIDITY value st = value)"
  by (simp add: convert_value_def const_defs Let_def)

theorem C1_humidity_conversion_witness:
  "((0.45::real) \<le> 1 \<and> convert_value MEASUREMENT_HUMIDITY 0.45 \<lparr>state = ''0.45'', attributes = Map.empty\<rparr> = 45)
   \<and> ((45::real) > 1 \<and> convert_value MEASUREMENT_HUMIDITY 45 \<lparr>state = ''45'', attributes = Map.empty\<rparr> = 45)"
  using C1_humidity_conversion [of "0.45" "\<lparr>state = ''0.45'', attributes = Map.empty\<rparr>"]
        C1_humidity_conversion [of "45" "\<lparr>state = ''45'', attributes = Map.empty\<rparr>"]
  by simp

section \<open>Which configuration a cycle uses\<close>

text \<open>
  C2 (as stated, refuted): a cycle uses the box id, the access token and the update
  interval that the entry holds when the cycle starts. The coordinator built from an entry
  for one box, running a cycle after the entry was changed to another box, another token
  and an interval of 600 seconds, still posts to the first box with the first token, and
  its status dict announces the next upload 300 seconds after this one.
\<close>

theorem C2_box_and_token_are_read_once:
  "OpenSenseMapCoordinator_init (ex_entry False) = Some ex_coordinator
   \<and> strs (data (ex_entry_updated False)) CONF_BOX_ID = Some ''60a1c0ffee263635001c1d00''
   \<and> strs (data (ex_entry_updated False)) CONF_ACCESS_TOKEN = Some ''n3wt0k3n''
   \<and> nums (data (ex_entry_updated False)) CONF_UPDATE_INTERVAL = Some 600
   \<and> fst (snd (async_update_data ex_pyfloat ex_fmt (ex_entry_updated False)
        (ex_hass ''212'' ''0.45'') (\<lambda>r. Response 200 ''ok'') 1000 ex_coordinator)) =
       [\<lparr>url = ''https://api.opensensemap.org/boxes/5f2b56f4263635001c1dd1fb/data'',
         headers =
           [(''Content-Type'', ''application/json; charset=utf-8''),
            (''User-Agent'', ''HomeAssistant-OpenSenseMap/1.0.0''),
            (''Authorization'', ''Bearer s3cr3t'')],
         payload = [(ex_sensor_t, ''100.00''), (ex_sensor_h, ''45.00'')]\<rparr>]
   \<and> d_last_upload (get_status_data (ex_entry_updated False)
        (fst (async_update_data ex_pyfloat ex_fmt (ex_entry_updated False)
           (ex_hass ''212'' ''0.45'') (\<lambda>r. Response 200 ''ok'') 1000 ex_coordinator))) = Some 1000
   \<and> d_next_upload (get_status_data (ex_entry_updated False)
        (fst (async_update_data ex_pyfloat ex_fmt (ex_entry_updated False)
           (ex_hass ''212'' ''0.45'') (\<lambda>r. Response 200 ''ok'') 1000 ex_coordinator))) = Some 1300"
proof -
  have g: "unavailable_sources (ex_entry_updated False) (ex_hass ''212'' ''0.45'') = []"
    by (rule ex_updated_unavailable_sources)
  have d: "collect_sensor_data ex_pyfloat ex_fmt (ex_entry_updated False) (ex_hass ''212'' ''0.45'') \<noteq> []"
    by (simp add: ex_updated_collect)
  have n: "nums (data (ex_entry_updated False)) CONF_UPDATE_INTERVAL = Some 600"
    by (simp add: ex_entry_updated_def)
  have p: "fst (snd (async_update_data ex_pyfloat ex_fmt (ex_entry_updated False)
        (ex_hass ''212'' ''0.45'') (\<lambda>r. Response 200 ''ok'') 1000 ex_coordinator)) =
       [\<lparr>url = ''https://api.opensensemap.org/boxes/5f2b56f4263635001c1dd1fb/data'',
         headers =
           [(''Content-Type'', ''application/json; charset=utf-8''),
            (''User-Agent'', ''HomeAssistant-OpenSenseMap/1.0.0''),
            (''Authorization'', ''Bearer s3cr3t'')],
         payload = [(ex_sensor_t, ''100.00''), (ex_sensor_h, ''45.00'')]\<rparr>]"
    by (simp add: cycle_post [OF g d] request_of_def ex_updated_collect)
       (simp add: ex_coordinator_def ex_box_def API_URL_def ex_headers)
  have c: "fst (async_update_data ex_pyfloat ex_fmt (ex_entry_updated False)
           (ex_hass ''212'' ''0.45'') (\<lambda>r. Response 200 ''ok'') 1000 ex_coordinator) =
        ex_coordinator\<lparr>p_session := True, last_upload := Some 1000, upload_count := 1\<rparr>"
    by (simp add: cycle_post [OF g d] after_post_def before_post_def ex_updated_debug_mode
          ex_coordinator_def)
  have u: "d_last_upload (get_status_data (ex_entry_updated False)
        (ex_coordinator\<lparr>p_session := True, last_upload := Some 1000, upload_count := 1\<rparr>)) = Some 1000"
    "d_next_upload (get_status_data (ex_entry_updated False)
        (ex_coordinator\<lparr>p_session := True, last_upload := Some 1000, upload_count := 1\<rparr>)) = Some 1300"
    by (simp_all add: get_status_data_def next_upload_def ex_coordinator_def)
  show ?thesis
    unfolding c using ex_init [of False] ex_updated_data [of False] n p u
    by (simp add: ex_box_new_def)
qed

text \<open>
  C2 (amended): a cycle reads the sensor mapping and the debug flag from the entry as it is
  when the cycle runs: the gate, the collected payload, the taking of the snapshot and its
  showing in the status dict follow the current entry. The box id, the access token and the
  update interval are read from the entry once, when the coordinator is constructed, and no
  cycle changes them: the url, the \<open>Authorization\<close> header, the \<open>box_id\<close> of the status
  dict and \<open>next_upload\<close> use the values of the construction, whatever the entry holds now.
\<close>

theorem C2_configuration_read_by_a_cycle:
  assumes "async_update_data pyfloat fmt entry hass net now c = (c1, posts, out)"
  shows "(OpenSenseMapCoordinator_init initial = Some built \<longrightarrow>
        strs (data initial) CONF_BOX_ID = Some (p_box_id built)
        \<and> p_access_token built = strs (data initial) CONF_ACCESS_TOKEN
        \<and> update_interval built =
            (case nums (options initial) CONF_UPDATE_INTERVAL of
               Some i \<Rightarrow> i
             | None \<Rightarrow>
                 (case nums (data initial) CONF_UPDATE_INTERVAL of
                    Some i \<Rightarrow> i
                  | None \<Rightarrow> DEFAULT_UPDATE_INTERVAL)))
    \<and> p_box_id c1 = p_box_id c
    \<and> p_access_token c1 = p_access_token c
    \<and> update_interval c1 = update_interval c
    \<and> posts =
        (if fst (all_sensors_available entry hass) \<and>
            collect_sensor_data pyfloat fmt entry hass \<noteq> []
         then [\<lparr>url = API_URL (p_box_id c),
                headers = request_headers (p_access_token c),
                payload = collect_sensor_data pyfloat fmt entry hass\<rparr>]
         else [])
    \<and> last_request_data c1 =
        (if debug_mode entry \<and> fst (all_sensors_available entry hass) \<and>
            collect_sensor_data pyfloat fmt entry hass \<noteq> []
         then Some \<lparr>url = API_URL (p_box_id c),
                    headers = redact (request_headers (p_access_token c)),
                    payload = collect_sensor_data pyfloat fmt entry hass\<rparr>
         else last_request_data c)
    \<and> out = Inr (get_status_data entry c1)
    \<and> d_box_id (get_status_data entry c1) = p_box_id c
    \<and> d_next_upload (get_status_data entry c1) =
        (case last_upload c1 of Some t \<Rightarrow> Some (t + update_interval c) | None \<Rightarrow> None)
    \<and> d_last_request (get_status_data entry c1) =
        (if debug_mode entry then last_request_data c1 else None)"
proof -
  have c1: "c1 = fst (async_update_data pyfloat fmt entry hass net now c)"
    and posts: "posts = fst (snd (async_update_data pyfloat fmt entry hass net now c))"
    and out: "out = snd (snd (async_update_data pyfloat fmt entry hass net now c))"
    using assms by simp_all
  have cached: "p_box_id c1 = p_box_id c" "p_access_token c1 = p_access_token c"
    "update_interval c1 = update_interval c"
    unfolding c1 using cycle_cached [of pyfloat fmt entry hass net now c] by simp_all
  have init: "OpenSenseMapCoordinator_init initial = Some built \<longrightarrow>
        strs (data initial) CONF_BOX_ID = Some (p_box_id built)
        \<and> p_access_token built = strs (data initial) CONF_ACCESS_TOKEN
        \<and> update_interval built =
            (case nums (options initial) CONF_UPDATE_INTERVAL of
               Some i \<Rightarrow> i
             | None \<Rightarrow>
                 (case nums (data initial) CONF_UPDATE_INTERVAL of
                    Some i \<Rightarrow> i
                  | None \<Rightarrow> DEFAULT_UPDATE_INTERVAL))"
    using init_cached [of initial built] by blast
  have p: "posts =
        (if fst (all_sensors_available entry hass) \<and>
            collect_sensor_data pyfloat fmt entry hass \<noteq> []
         then [\<lparr>url = API_URL (p_box_id c),
                headers = request_headers (p_access_token c),
                payload = collect_sensor_data pyfloat fmt entry hass\<rparr>]
         else [])"
    unfolding posts by (simp add: cycle_posts_eq gate_open request_of_def)
  have s: "last_request_data c1 =
        (if debug_mode entry \<and> fst (all_sensors_available entry hass) \<and>
            collect_sensor_data pyfloat fmt entry hass \<noteq> []
         then Some \<lparr>url = API_URL (p_box_id c),
                    headers = redact (request_headers (p_access_token c)),
                    payload = collect_sensor_data pyfloat fmt entry hass\<rparr>
         else last_request_data c)"
    unfolding c1 by (simp add: cycle_snapshot gate_open snapshot_of_def)
  have o: "out = Inr (get_status_data entry c1)"
    unfolding out c1 by (rule cycle_returns_status)
  have b: "d_box_id (get_status_data entry c1) = p_box_id c"
    by (simp add: get_status_data_def cached)
  have n: "d_next_upload (get_status_data entry c1) =
        (case last_upload c1 of Some t \<Rightarrow> Some (t + update_interval c) | None \<Rightarrow> None)"
    by (cases "last_upload c1") (simp_all add: get_status_data_def next_upload_def cached)
  have r: "d_last_request (get_status_data entry c1) =
        (if debug_mode entry then last_request_data c1 else None)"
    by (simp add: get_status_data_def)
  show ?thesis
    by (intro conjI; (rule init cached p s o b n r))
qed

theorem C2_configuration_read_by_a_cycle_witness:
  "OpenSenseMapCoordinator_init (ex_entry False) = Some ex_coordinator
   \<and> strs (data (ex_entry False)) CONF_BOX_ID = Some ex_box
   \<and> strs (data (ex_entry_updated True)) CONF_BOX_ID = Some ex_box_new
   \<and> async_update_data ex_pyfloat ex_fmt (ex_entry_updated True) (ex_hass ''212'' ''0.45'')
        (\<lambda>r. Response 200 ''ok'') 1000 ex_coordinator =
       (ex_coordinator\<lparr>p_session := True, last_upload := Some 1000, upload_count := 1,
          last_request_data :=
            Some \<lparr>url = API_URL ex_box,
                  headers = redact (request_headers (Some ''s3cr3t'')),
                  payload = [(ex_sensor_t, ''100.00''), (ex_sensor_h, ''45.00'')]\<rparr>\<rparr>,
        [\<lparr>url = API_URL ex_box,
          headers = request_headers (Some ''s3cr3t''),
          payload = [(ex_sensor_t, ''100.00''), (ex_sensor_h, ''45.00'')]\<rparr>],
        Inr (get_status_data (ex_entry_updated True)
          (ex_coordinator\<lparr>p_session := True, last_upload := Some 1000, upload_count := 1,
             last_request_data :=
               Some \<lparr>url = API_URL ex_box,
                     headers = redact (request_headers (Some ''s3cr3t'')),
                     payload = [(ex_sensor_t, ''100.00''), (ex_sensor_h, ''45.00'')]\<rparr>\<rparr>)))
   \<and> d_box_id (get_status_data (ex_entry_updated True)
        (ex_coordinator\<lparr>p_session := True, last_upload := Some 1000, upload_count := 1,
           last_request_data :=
             Some \<lparr>url = API_URL ex_box,
                   headers = redact (request_headers (Some ''s3cr3t'')),
                   payload = [(ex_sensor_t, ''100.00''), (ex_sensor_h, ''45.00'')]\<rparr>\<rparr>)) = ex_box
   \<and> d_next_upload (get_status_data (ex_entry_updated True)
        (ex_coordinator\<lparr>p_session := True, last_upload := Some 1000, upload_count := 1,
           last_request_data :=
             Some \<lparr>url = API_URL ex_box,
                   headers = redact (request_headers (Some ''s3cr3t'')),
                   payload = [(ex_sensor_t, ''100.00''), (ex_sensor_h, ''45.00'')]\<rparr>\<rparr>)) = Some 1300"
proof -
  let ?c1 = "ex_coordinator\<lparr>p_session := True, last_upload := Some 1000, upload_count := 1,
          last_request_data :=
            Some \<lparr>url = API_URL ex_box,
                  headers = redact (request_headers (Some ''s3cr3t'')),
                  payload = [(ex_sensor_t, ''100.00''), (ex_sensor_h, ''45.00'')]\<rparr>\<rparr>"
  have g: "unavailable_sources (ex_entry_updated True) (ex_hass ''212'' ''0.45'') = []"
    by (rule ex_updated_unavailable_sources)
  have d: "collect_sensor_data ex_pyfloat ex_fmt (ex_entry_updated True) (ex_hass ''212'' ''0.45'') \<noteq> []"
    by (simp add: ex_updated_collect)
  have run: "async_update_data ex_pyfloat ex_fmt (ex_entry_updated True) (ex_hass ''212'' ''0.45'')
        (\<lambda>r. Response 200 ''ok'') 1000 ex_coordinator =
       (?c1,
        [\<lparr>url = API_URL ex_box,
          headers = request_headers (Some ''s3cr3t''),
          payload = [(ex_sensor_t, ''100.00''), (ex_sensor_h, ''45.00'')]\<rparr>],
        Inr (get_status_data (ex_entry_updated True) ?c1))"
    by (simp add: cycle_post [OF g d] after_post_def before_post_def ex_updated_debug_mode
          request_of_def snapshot_of_def ex_updated_collect ex_coordinator_def)
  have e: "strs (data (ex_entry False)) CONF_BOX_ID = Some ex_box"
    by (simp add: ex_entry_def const_defs)
  have i: "OpenSenseMapCoordinator_init (ex_entry False) = Some ex_coordinator"
    by (rule ex_init)
  have fields: "p_box_id ex_coordinator = ex_box" "update_interval ex_coordinator = 300"
    "last_upload ?c1 = Some 1000"
    by (simp_all add: ex_coordinator_def)
  note th = C2_configuration_read_by_a_cycle [OF run,
        where initial = "ex_entry False" and built = ex_coordinator]
  have b: "d_box_id (get_status_data (ex_entry_updated True) ?c1) = p_box_id ex_coordinator"
    using th by blast
  have n: "d_next_upload (get_status_data (ex_entry_updated True) ?c1) =
        (case last_upload ?c1 of
           Some t \<Rightarrow> Some (t + update_interval ex_coordinator) | None \<Rightarrow> None)"
    using th by blast
  have status: "d_box_id (get_status_data (ex_entry_updated True) ?c1) = ex_box
    \<and> d_next_upload (get_status_data (ex_entry_updated True) ?c1) = Some 1300"
    unfolding b n by (simp add: fields)
  show ?thesis
    using run i e ex_updated_data(1) [of True] status
    by simp
qed

section \<open>The debug snapshot of a push\<close>

text \<open>
  C3 (as stated, refuted): with debug mode on, every push captures the snapshot. A push
  whose collected payload is empty returns before the snapshot is taken: with debug mode
  on and two readings that are not numbers, \<open>last_request_data\<close> is still unset after
  the push.
\<close>

theorem C3_empty_push_takes_no_snapshot:
  "debug_mode (ex_entry True)
   \<and> push_sensor_data ex_pyfloat ex_fmt (ex_entry True) (ex_hass ''n/a'' ''n/a'')
        (\<lambda>r. Response 200 ''ok'') ex_coordinator = (ex_coordinator, [], Inr (True, None))
   \<and> last_request_data ex_coordinator = None"
  by (simp add: ex_debug_mode push_empty ex_collect_nothing) (simp add: ex_coordinator_def)

text \<open>
  C3 (amended): for every push whose collected payload is not empty, with debug mode on
  the snapshot is replaced by the url, the headers and the payload of this push, whatever
  the network answers, and the headers of the snapshot hold \<open>***\<close> for
  \<open>Authorization\<close>, so that the snapshot is the same for every non-empty access token;
  with debug mode off the push leaves the snapshot as it was. A push whose payload is
  empty leaves the snapshot as it was.
\<close>

theorem C3_debug_snapshot:
  "(debug_mode entry \<and> collect_sensor_data pyfloat fmt entry hass \<noteq> [] \<longrightarrow>
      last_request_data (fst (push_sensor_data pyfloat fmt entry hass net c)) =
        Some \<lparr>url = API_URL (p_box_id c),
              headers = redact (request_headers (p_access_token c)),
              payload = collect_sensor_data pyfloat fmt entry hass\<rparr>)
   \<and> (t \<noteq> [] \<longrightarrow>
        redact (request_headers (Some t)) =
          [(''Content-Type'', ''application/json; charset=utf-8''),
           (''User-Agent'', ''HomeAssistant-OpenSenseMap/1.0.0''),
           (''Authorization'', ''***'')])
   \<and> redact (request_headers None) = request_headers None
   \<and> redact (request_headers (Some [])) = request_headers None
   \<and> (\<not> debug_mode entry \<longrightarrow>
        last_request_data (fst (push_sensor_data pyfloat fmt entry hass net c)) =
          last_request_data c)
   \<and> (collect_sensor_data pyfloat fmt entry hass = [] \<longrightarrow>
        last_request_data (fst (push_sensor_data pyfloat fmt entry hass net c)) =
          last_request_data c)"
proof -
  have a: "debug_mode entry \<and> collect_sensor_data pyfloat fmt entry hass \<noteq> [] \<longrightarrow>
      last_request_data (fst (push_sensor_data pyfloat fmt entry hass net c)) =
        Some \<lparr>url = API_URL (p_box_id c),
              headers = redact (request_headers (p_access_token c)),
              payload = collect_sensor_data pyfloat fmt entry hass\<rparr>"
    by (simp add: push_snapshot snapshot_of_def)
  have b: "t \<noteq> [] \<longrightarrow>
        redact (request_headers (Some t)) =
          [(''Content-Type'', ''application/json; charset=utf-8''),
           (''User-Agent'', ''HomeAssistant-OpenSenseMap/1.0.0''),
           (''Authorization'', ''***'')]"
    by (simp add: redact_def request_headers_def SOFTWARE_TYPE_def)
  have c: "redact (request_headers None) = request_headers None"
    "redact (request_headers (Some [])) = request_headers None"
    by (simp_all add: redact_def request_headers_def SOFTWARE_TYPE_def)
  have d: "\<not> debug_mode entry \<longrightarrow>
        last_request_data (fst (push_sensor_data pyfloat fmt entry hass net c)) =
          last_request_data c"
    by (simp add: push_snapshot)
  have e: "collect_sensor_data pyfloat fmt entry hass = [] \<longrightarrow>
        last_request_data (fst (push_sensor_data pyfloat fmt entry hass net c)) =
          last_request_data c"
    by (simp add: push_empty)
  show ?thesis
    by (intro conjI; (rule a b c d e))
qed

theorem C3_debug_snapshot_witness:
  "debug_mode (ex_entry True)
   \<and> collect_sensor_data ex_pyfloat ex_fmt (ex_entry True) (ex_hass ''212'' ''0.45'') \<noteq> []
   \<and> last_request_data (fst (push_sensor_data ex_pyfloat ex_fmt (ex_entry True)
        (ex_hass ''212'' ''0.45'') (\<lambda>r. TimeoutError) ex_coordinator)) =
       Some \<lparr>url = ''https://api.opensensemap.org/boxes/5f2b56f4263635001c1dd1fb/data'',
             headers =
               [(''Content-Type'', ''application/json; charset=utf-8''),
                (''User-Agent'', ''HomeAssistant-OpenSenseMap/1.0.0''),
                (''Authorization'', ''***'')],
             payload = [(ex_sensor_t, ''100.00''), (ex_sensor_h, ''45.00'')]\<rparr>
   \<and> last_request_data (fst (push_sensor_data ex_pyfloat ex_fmt (ex_entry False)
        (ex_hass ''212'' ''0.45'') (\<lambda>r. TimeoutError) ex_coordinator)) = None
   \<and> last_request_data (fst (push_sensor_data ex_pyfloat ex_fmt (ex_entry True)
        (ex_hass ''n/a'' ''n/a'') (\<lambda>r. TimeoutError) ex_coordinator)) = None"
proof -
  have on: "debug_mode (ex_entry True)" and off: "\<not> debug_mode (ex_entry False)"
    by (simp_all add: ex_debug_mode)
  have d: "collect_sensor_data ex_pyfloat ex_fmt (ex_entry True) (ex_hass ''212'' ''0.45'') \<noteq> []"
    by (simp add: ex_collect)
  have t: "''s3cr3t'' \<noteq> []"
    by simp
  have f: "p_box_id ex_coordinator = ex_box" "p_access_token ex_coordinator = Some ''s3cr3t''"
    "last_request_data ex_coordinator = None"
    by (simp_all add: ex_coordinator_def)
  show ?thesis
    using on off d t ex_collect_nothing [of True]
      C3_debug_snapshot [of "ex_entry True" ex_pyfloat ex_fmt "ex_hass ''212'' ''0.45''"
        "\<lambda>r. TimeoutError" ex_coordinator "''s3cr3t''"]
      C3_debug_snapshot [of "ex_entry False" ex_pyfloat ex_fmt "ex_hass ''212'' ''0.45''"
        "\<lambda>r. TimeoutError" ex_coordinator "''s3cr3t''"]
      C3_debug_snapshot [of "ex_entry True" ex_pyfloat ex_fmt "ex_hass ''n/a'' ''n/a''"
        "\<lambda>r. TimeoutError" ex_coordinator "''s3cr3t''"]
    by (simp add: f ex_collect API_URL_def ex_box_def)
qed

section \<open>Validation of the remote sensor ids\<close>

text \<open>
  C4 (the code does not do what the claim says): a remote sensor id that is not 24
  hexadecimal digits is rejected before an entry is created. \<open>validate_sensor_id\<close> rejects
  \<open>not-a-hex-id\<close>, but no step of either flow calls it: the config flow, which does reject
  a malformed box id, goes on from the sensors step to the options step and creates the
  entry with that sensor id in its data, and the options flow creates its entry with it
  too.
\<close>

theorem C4_malformed_sensor_id_is_accepted:
  "\<not> validate_sensor_id ''not-a-hex-id''
   \<and> snd (async_step_user [] empty_dict
        (Some \<lparr>strs = [CONF_BOX_ID \<mapsto> ''not-a-hex-id''], nums = Map.empty, flags = Map.empty\<rparr>))
       = Inr (Form ''user'' (Some ''invalid_box_id''))
   \<and> snd ex_flow_user = Inr (Form ''sensors'' None)
   \<and> snd ex_flow_sensors = Inr (Form ''options'' None)
   \<and> (case snd ex_flow_options of
         Inr (CreateEntry title dat) \<Rightarrow>
           title = ''OpenSenseMap (5f2b56f4...)''
           \<and> strs dat CONF_SENSOR_ID_TEMPERATURE = Some ''not-a-hex-id''
           \<and> strs dat CONF_ENTITY_TEMPERATURE = Some ''sensor.temp''
       | _ \<Rightarrow> False)
   \<and> (case async_step_init (Some ex_sensors_input) of
         CreateEntry title dat \<Rightarrow>
           strs dat CONF_SENSOR_ID_TEMPERATURE = Some ''not-a-hex-id''
           \<and> strs dat CONF_ENTITY_TEMPERATURE = Some ''sensor.temp''
       | _ \<Rightarrow> False)"
proof -
  have a: "snd (async_step_user [] empty_dict
        (Some \<lparr>strs = [CONF_BOX_ID \<mapsto> ''not-a-hex-id''], nums = Map.empty, flags = Map.empty\<rparr>))
       = Inr (Form ''user'' (Some ''invalid_box_id''))"
    by (simp add: async_step_user_def strip_examples validate_box_id_def hex24_match_def)
  have b: "case snd ex_flow_options of
         Inr (CreateEntry title dat) \<Rightarrow>
           title = ''OpenSenseMap (5f2b56f4...)''
           \<and> strs dat CONF_SENSOR_ID_TEMPERATURE = Some ''not-a-hex-id''
           \<and> strs dat CONF_ENTITY_TEMPERATURE = Some ''sensor.temp''
       | _ \<Rightarrow> False"
    by (simp add: ex_flow_options_def ex_flow_sensors_eq async_step_options_def empty_dict_def
          const_defs Let_def)
  have c: "case async_step_init (Some ex_sensors_input) of
         CreateEntry title dat \<Rightarrow>
           strs dat CONF_SENSOR_ID_TEMPERATURE = Some ''not-a-hex-id''
           \<and> strs dat CONF_ENTITY_TEMPERATURE = Some ''sensor.temp''
       | _ \<Rightarrow> False"
    by (simp add: async_step_init_def SENSOR_CONFIGS_def init_step_def ex_sensors_input_def
          strip_examples truthy_def empty_dict_def const_defs Let_def)
  show ?thesis
    using a b c by (simp add: validate_examples ex_flow_user_eq ex_flow_sensors_eq)
qed

section \<open>The availability gate\<close>

text \<open>
  C5: when an active mapping entry (remote sensor id and entity id both configured) names
  an entity that the state machine does not know or whose state is \<open>unknown\<close> or
  \<open>unavailable\<close>, the cycle changes nothing but \<open>last_error\<close>, which becomes
  \<open>Sensors unavailable: \<close> followed by the unavailable entity ids joined with \<open>, \<close>;
  it posts no request and takes no snapshot. The list holds that entity, and only entities of
  active entries: an entry without a sensor id or without an entity id is not looked up.
\<close>

theorem C5_unavailable_source_skips_cycle:
  assumes "(sensor_id_key, entity_key, label, measurement_type) \<in> set SENSOR_CONFIGS"
    and "get_str entry sensor_id_key = Some sid" and "sid \<noteq> []"
    and "get_str entry entity_key = Some eid" and "eid \<noteq> []"
    and "unusable (states hass eid)"
  shows "async_update_data pyfloat fmt entry hass net now c =
      (c\<lparr>last_error :=
           Some (''Sensors unavailable: '' @ join '', '' (unavailable_sources entry hass))\<rparr>,
       [],
       Inr (get_status_data entry
         (c\<lparr>last_error :=
              Some (''Sensors unavailable: '' @ join '', '' (unavailable_sources entry hass))\<rparr>)))
    \<and> eid \<in> set (unavailable_sources entry hass)
    \<and> (\<forall>x \<in> set (unavailable_sources entry hass).
          \<exists>cfg \<in> set SENSOR_CONFIGS.
            active entry cfg \<and> get_str entry (fst (snd cfg)) = Some x \<and> unusable (states hass x))"
proof -
  have mem: "eid \<in> set (unavailable_sources entry hass)"
    using assms by (rule unavailable_sources_member)
  then have ne: "unavailable_sources entry hass \<noteq> []"
    by auto
  have only: "\<forall>x \<in> set (unavailable_sources entry hass).
          \<exists>cfg \<in> set SENSOR_CONFIGS.
            active entry cfg \<and> get_str entry (fst (snd cfg)) = Some x \<and> unusable (states hass x)"
    by (auto simp: unavailable_sources_eq unavailable_of_def split: if_splits option.splits)
  show ?thesis
    using cycle_gate_closed [OF ne] mem only by blast
qed

theorem C5_unavailable_source_skips_cycle_witness:
  "async_update_data ex_pyfloat ex_fmt (ex_entry False) (ex_hass ''unavailable'' ''unknown'')
      (\<lambda>r. Response 200 ''ok'') 1000 ex_coordinator =
    (ex_coordinator\<lparr>last_error := Some ''Sensors unavailable: sensor.temp, sensor.hum''\<rparr>,
     [],
     Inr (get_status_data (ex_entry False)
            (ex_coordinator\<lparr>last_error := Some ''Sensors unavailable: sensor.temp, sensor.hum''\<rparr>)))"
proof -
  have cfg: "(CONF_SENSOR_ID_TEMPERATURE, CONF_ENTITY_TEMPERATURE, ''Temperature'',
              MEASUREMENT_TEMPERATURE) \<in> set SENSOR_CONFIGS"
    by (simp add: SENSOR_CONFIGS_def)
  have un: "unusable (states (ex_hass ''unavailable'' ''unknown'') ''sensor.temp'')"
    by (simp add: ex_states unusable_def)
  have ne: "ex_sensor_t \<noteq> []" "''sensor.temp'' \<noteq> []"
    by (simp_all add: ex_sensor_t_def)
  show ?thesis
    using C5_unavailable_source_skips_cycle
      [OF cfg ex_get_str(5) [of False] ne(1) ex_get_str(6) [of False] ne(2) un,
       where pyfloat = ex_pyfloat and fmt = ex_fmt and net = "\<lambda>r. Response 200 ''ok''"
         and now = 1000 and c = ex_coordinator]
    by (simp add: ex_unavailable_sources)
qed

section \<open>Failed cycles\<close>

text \<open>
  C6 (as stated, refuted): after a transport error, \<open>last_error\<close> is the stringified
  error. For an \<open>aiohttp.ClientError\<close> whose description is empty the cycle stores
  \<open>Unknown error\<close> instead.
\<close>

theorem C6_empty_transport_error_is_replaced:
  "last_error (fst (async_update_data ex_pyfloat ex_fmt (ex_entry False) (ex_hass ''212'' ''0.45'')
      (\<lambda>r. ClientError []) 1000 ex_coordinator)) = Some ''Unknown error''
   \<and> last_error (fst (async_update_data ex_pyfloat ex_fmt (ex_entry False) (ex_hass ''212'' ''0.45'')
      (\<lambda>r. ClientError []) 1000 ex_coordinator)) \<noteq> Some []"
  by (simp add: ex_cycle_post after_post_def before_post_fields)

text \<open>
  C6 (amended): when a cycle posted the request \<open>req\<close>, \<open>last_error\<close> is
  \<open>HTTP {status}: {body}\<close> for a response whose status is neither 200 nor 201 (so for
  every non-2xx status), \<open>Request timeout\<close> for a timeout, the description of a
  transport error, or \<open>Unknown error\<close> when that description is empty, and the
  description of any other exception. Every cycle that leaves a \<open>last_error\<close> leaves
  \<open>last_upload\<close> and \<open>upload_count\<close> as they were.
\<close>

theorem C6_failed_cycle:
  assumes "async_update_data pyfloat fmt entry hass net now c = (c1, posts, out)"
  shows "(posts = [req] \<longrightarrow>
       (\<forall>status body. net req = Response status body \<and> status \<notin> {200, 201} \<longrightarrow>
           last_error c1 = Some (''HTTP '' @ str_int status @ '': '' @ body))
     \<and> (net req = TimeoutError \<longrightarrow> last_error c1 = Some ''Request timeout'')
     \<and> (\<forall>msg. net req = ClientError msg \<longrightarrow>
           last_error c1 = Some (if msg = [] then ''Unknown error'' else msg))
     \<and> (\<forall>msg. net req = OtherException msg \<longrightarrow> last_error c1 = Some msg))
   \<and> (last_error c1 \<noteq> None \<longrightarrow> last_upload c1 = last_upload c \<and> upload_count c1 = upload_count c)"
proof -
  have c1: "c1 = fst (async_update_data pyfloat fmt entry hass net now c)"
    and posts: "posts = fst (snd (async_update_data pyfloat fmt entry hass net now c))"
    using assms by simp_all
  have frame: "last_error c1 \<noteq> None \<longrightarrow> last_upload c1 = last_upload c \<and> upload_count c1 = upload_count c"
    unfolding c1 using cycle_frame [of pyfloat fmt entry hass net now c] by blast
  have msgs: "(\<forall>status body. net req = Response status body \<and> status \<notin> {200, 201} \<longrightarrow>
           last_error c1 = Some (''HTTP '' @ str_int status @ '': '' @ body))
     \<and> (net req = TimeoutError \<longrightarrow> last_error c1 = Some ''Request timeout'')
     \<and> (\<forall>msg. net req = ClientError msg \<longrightarrow>
           last_error c1 = Some (if msg = [] then ''Unknown error'' else msg))
     \<and> (\<forall>msg. net req = OtherException msg \<longrightarrow> last_error c1 = Some msg)"
    if p: "posts = [req]"
  proof -
    from p posts have "fst (snd (async_update_data pyfloat fmt entry hass net now c)) = [req]"
      by simp
    from cycle_posts [OF this]
    have g: "unavailable_sources entry hass = []"
      and d: "collect_sensor_data pyfloat fmt entry hass \<noteq> []"
      and r: "req = request_of pyfloat fmt entry hass c"
      by simp_all
    have e: "c1 = after_post (net req) now (before_post pyfloat fmt entry hass c)"
      unfolding c1 r by (simp add: cycle_post [OF g d])
    show ?thesis
      unfolding e by (cases "net req") (simp_all add: after_post_def)
  qed
  from frame msgs show ?thesis by blast
qed

theorem C6_failed_cycle_witness:
  "async_update_data ex_pyfloat ex_fmt (ex_entry False) (ex_hass ''212'' ''0.45'')
      (\<lambda>r. Response 401 ''Unauthorized'') 1000 (ex_coordinator\<lparr>last_upload := Some 700, upload_count := 3\<rparr>)
    = (ex_coordinator\<lparr>p_session := True, last_upload := Some 700,
          last_error := Some ''HTTP 401: Unauthorized'', upload_count := 3\<rparr>,
       [\<lparr>url = API_URL ex_box, headers = request_headers (Some ''s3cr3t''),
         payload = [(ex_sensor_t, ''100.00''), (ex_sensor_h, ''45.00'')]\<rparr>],
       Inr (get_status_data (ex_entry False)
         (ex_coordinator\<lparr>p_session := True, last_upload := Some 700,
            last_error := Some ''HTTP 401: Unauthorized'', upload_count := 3\<rparr>)))
   \<and> last_error (ex_coordinator\<lparr>p_session := True, last_upload := Some 700,
          last_error := Some ''HTTP 401: Unauthorized'', upload_count := 3\<rparr>)
       = Some (''HTTP '' @ str_int 401 @ '': '' @ ''Unauthorized'')
   \<and> upload_count (ex_coordinator\<lparr>p_session := True, last_upload := Some 700,
          last_error := Some ''HTTP 401: Unauthorized'', upload_count := 3\<rparr>) = 3"
proof -
  let ?c = "ex_coordinator\<lparr>last_upload := Some 700, upload_count := 3\<rparr>"
  let ?c1 = "ex_coordinator\<lparr>p_session := True, last_upload := Some 700,
          last_error := Some ''HTTP 401: Unauthorized'', upload_count := 3\<rparr>"
  have s: "str_int 401 = ''401''"
    by (simp add: str_int_def str_nat.simps)
  have g: "unavailable_sources (ex_entry False) (ex_hass ''212'' ''0.45'') = []"
    by (simp add: ex_unavailable_sources)
  have d: "collect_sensor_data ex_pyfloat ex_fmt (ex_entry False) (ex_hass ''212'' ''0.45'') \<noteq> []"
    by (simp add: ex_collect)
  have run: "async_update_data ex_pyfloat ex_fmt (ex_entry False) (ex_hass ''212'' ''0.45'')
      (\<lambda>r. Response 401 ''Unauthorized'') 1000 ?c
    = (?c1,
       [\<lparr>url = API_URL ex_box, headers = request_headers (Some ''s3cr3t''),
         payload = [(ex_sensor_t, ''100.00''), (ex_sensor_h, ''45.00'')]\<rparr>],
       Inr (get_status_data (ex_entry False) ?c1))"
    by (simp add: cycle_post [OF g d] after_post_def before_post_def ex_debug_mode s
          request_of_def ex_collect ex_coordinator_def)
  show ?thesis
    using run C6_failed_cycle [OF run,
      of "\<lparr>url = API_URL ex_box, headers = request_headers (Some ''s3cr3t''),
         payload = [(ex_sensor_t, ''100.00''), (ex_sensor_h, ''45.00'')]\<rparr>"]
    by (simp add: s ex_coordinator_def)
qed

section \<open>A cycle with nothing to upload\<close>

text \<open>
  C7: when the gate is open and the collector yields an empty payload, the push returns
  \<open>(True, None)\<close> and posts nothing, and the cycle counts as an upload: no request is
  posted, \<open>upload_count\<close> grows by one, \<open>last_upload\<close> is the time of the cycle and
  \<open>last_error\<close> is cleared.
\<close>

theorem C7_empty_payload_counts_as_success:
  assumes "fst (all_sensors_available entry hass)"
    and "collect_sensor_data pyfloat fmt entry hass = []"
  shows "push_sensor_data pyfloat fmt entry hass net c = (c, [], Inr (True, None))
    \<and> fst (snd (async_update_data pyfloat fmt entry hass net now c)) = []
    \<and> upload_count (fst (async_update_data pyfloat fmt entry hass net now c)) = upload_count c + 1
    \<and> last_upload (fst (async_update_data pyfloat fmt entry hass net now c)) = Some now
    \<and> last_error (fst (async_update_data pyfloat fmt entry hass net now c)) = None"
  using assms by (simp add: gate_open push_empty cycle_empty)

theorem C7_empty_payload_counts_as_success_witness:
  "fst (all_sensors_available (ex_entry False) (ex_hass ''n/a'' ''n/a''))
   \<and> collect_sensor_data ex_pyfloat ex_fmt (ex_entry False) (ex_hass ''n/a'' ''n/a'') = []
   \<and> fst (snd (async_update_data ex_pyfloat ex_fmt (ex_entry False) (ex_hass ''n/a'' ''n/a'')
        (\<lambda>r. Response 500 ''down'') 1000 ex_coordinator)) = []
   \<and> upload_count (fst (async_update_data ex_pyfloat ex_fmt (ex_entry False) (ex_hass ''n/a'' ''n/a'')
        (\<lambda>r. Response 500 ''down'') 1000 ex_coordinator)) = 1
   \<and> last_upload (fst (async_update_data ex_pyfloat ex_fmt (ex_entry False) (ex_hass ''n/a'' ''n/a'')
        (\<lambda>r. Response 500 ''down'') 1000 ex_coordinator)) = Some 1000
   \<and> last_error (fst (async_update_data ex_pyfloat ex_fmt (ex_entry False) (ex_hass ''n/a'' ''n/a'')
        (\<lambda>r. Response 500 ''down'') 1000 ex_coordinator)) = None"
proof -
  have g: "fst (all_sensors_available (ex_entry False) (ex_hass ''n/a'' ''n/a''))"
    by (simp add: gate_open ex_unavailable_sources)
  show ?thesis
    using g C7_empty_payload_counts_as_success [OF g ex_collect_nothing [of False],
      where net = "\<lambda>r. Response 500 ''down''" and now = 1000 and c = ex_coordinator]
    by (simp add: ex_collect_nothing ex_coordinator_def)
qed

section \<open>No exception leaves a cycle\<close>

text \<open>
  C8 (as stated, refuted): every failure of a cycle, a failure of the collection included,
  is absorbed into \<open>last_error\<close>. A reading that cannot be converted is skipped by the
  collector and recorded nowhere: after a cycle that timed out, a cycle in which neither
  reading is a number posts nothing, counts an upload and ends with \<open>last_error\<close>
  cleared.
\<close>

theorem C8_conversion_failure_leaves_no_error:
  "ex_pyfloat ''n/a'' = None
   \<and> last_error (ex_coordinator\<lparr>last_error := Some ''Request timeout''\<rparr>) = Some ''Request timeout''
   \<and> fst (snd (async_update_data ex_pyfloat ex_fmt (ex_entry False) (ex_hass ''n/a'' ''n/a'')
        (\<lambda>r. Response 200 ''ok'') 1000
        (ex_coordinator\<lparr>last_error := Some ''Request timeout''\<rparr>))) = []
   \<and> last_error (fst (async_update_data ex_pyfloat ex_fmt (ex_entry False) (ex_hass ''n/a'' ''n/a'')
        (\<lambda>r. Response 200 ''ok'') 1000
        (ex_coordinator\<lparr>last_error := Some ''Request timeout''\<rparr>))) = None
   \<and> upload_count (fst (async_update_data ex_pyfloat ex_fmt (ex_entry False)
        (ex_hass ''n/a'' ''n/a'') (\<lambda>r. Response 200 ''ok'') 1000
        (ex_coordinator\<lparr>last_error := Some ''Request timeout''\<rparr>))) = 1"
proof -
  have g: "unavailable_sources (ex_entry False) (ex_hass ''n/a'' ''n/a'') = []"
    by (simp add: ex_unavailable_sources)
  show ?thesis
    by (simp add: cycle_empty [OF g ex_collect_nothing]) (simp add: ex_pyfloat_def ex_coordinator_def)
qed

text \<open>
  C8 (amended): for every configuration, state machine, network behaviour and coordinator
  state the cycle returns a status dict and never an exception, and the dict shows the
  coordinator as the cycle leaves it. The failures that reach \<open>last_error\<close> are these: an
  active entry whose entity is missing, unknown or unavailable gives
  \<open>Sensors unavailable: \<close> and the list, and nothing is posted; a posted request gives
  \<open>HTTP {status}: {body}\<close> for a status other than 200 and 201, \<open>Request timeout\<close>,
  the description of a transport error (or \<open>Unknown error\<close> for an empty one) or the
  description of any other exception; an exception that leaves the \<open>try\<close> block gives
  its description. A reading that cannot be converted does not reach \<open>last_error\<close>: with
  the gate open and nothing collected the cycle posts nothing, counts an upload and clears
  \<open>last_error\<close>. A cycle that leaves no \<open>last_error\<close> has counted an upload at the
  time of the cycle.
\<close>

theorem C8_cycle_never_raises:
  assumes "async_update_data pyfloat fmt entry hass net now c = (c1, posts, out)"
  shows "out =
      Inr \<lparr>d_last_upload = last_upload c1,
           d_last_error = last_error c1,
           d_upload_count = upload_count c1,
           d_next_upload =
             (case last_upload c1 of Some t \<Rightarrow> Some (t + update_interval c1) | None \<Rightarrow> None),
           d_box_id = p_box_id c1,
           d_last_request = (if debug_mode entry then last_request_data c1 else None)\<rparr>
    \<and> (\<forall>sensor_id_key entity_key label measurement_type sid eid.
          (sensor_id_key, entity_key, label, measurement_type) \<in> set SENSOR_CONFIGS
          \<and> get_str entry sensor_id_key = Some sid \<and> sid \<noteq> []
          \<and> get_str entry entity_key = Some eid \<and> eid \<noteq> []
          \<and> unusable (states hass eid) \<longrightarrow>
          last_error c1 =
            Some (''Sensors unavailable: '' @ join '', '' (unavailable_sources entry hass))
          \<and> posts = [])
    \<and> posts =
        (if fst (all_sensors_available entry hass) \<and>
            collect_sensor_data pyfloat fmt entry hass \<noteq> []
         then [\<lparr>url = API_URL (p_box_id c),
                headers = request_headers (p_access_token c),
                payload = collect_sensor_data pyfloat fmt entry hass\<rparr>]
         else [])
    \<and> (\<forall>req. posts = [req] \<longrightarrow>
          last_error c1 =
            (case net req of
               Response status body \<Rightarrow>
                 if status \<in> {200, 201} then None
                 else Some (''HTTP '' @ str_int status @ '': '' @ body)
             | TimeoutError \<Rightarrow> Some ''Request timeout''
             | ClientError msg \<Rightarrow> Some (if msg = [] then ''Unknown error'' else msg)
             | OtherException msg \<Rightarrow> Some msg))
    \<and> (\<forall>msg. snd (snd (update_try pyfloat fmt entry hass net now c)) = Inl (PyException msg) \<longrightarrow>
          last_error c1 = Some msg)
    \<and> (fst (all_sensors_available entry hass) \<and>
        collect_sensor_data pyfloat fmt entry hass = [] \<longrightarrow>
          last_error c1 = None \<and> posts = [] \<and> upload_count c1 = upload_count c + 1)
    \<and> (last_error c1 = None \<longrightarrow>
          upload_count c1 = upload_count c + 1 \<and> last_upload c1 = Some now)"
proof -
  have c1: "c1 = fst (async_update_data pyfloat fmt entry hass net now c)"
    and posts: "posts = fst (snd (async_update_data pyfloat fmt entry hass net now c))"
    and out: "out = snd (snd (async_update_data pyfloat fmt entry hass net now c))"
    using assms by simp_all
  have err: "last_error c1 =
    (if unavailable_sources entry hass \<noteq> []
     then Some (''Sensors unavailable: '' @ join '', '' (unavailable_sources entry hass))
     else if collect_sensor_data pyfloat fmt entry hass = [] then None
     else (case net (request_of pyfloat fmt entry hass c) of
             Response status body \<Rightarrow>
               if status \<in> {200, 201} then None
               else Some (''HTTP '' @ str_int status @ '': '' @ body)
           | TimeoutError \<Rightarrow> Some ''Request timeout''
           | ClientError msg \<Rightarrow> Some (if msg = [] then ''Unknown error'' else msg)
           | OtherException msg \<Rightarrow> Some msg))"
    unfolding c1 by (rule cycle_last_error)
  have p: "posts =
    (if unavailable_sources entry hass = [] \<and> collect_sensor_data pyfloat fmt entry hass \<noteq> []
     then [request_of pyfloat fmt entry hass c] else [])"
    unfolding posts by (rule cycle_posts_eq)
  have status: "out =
      Inr \<lparr>d_last_upload = last_upload c1,
           d_last_error = last_error c1,
           d_upload_count = upload_count c1,
           d_next_upload =
             (case last_upload c1 of Some t \<Rightarrow> Some (t + update_interval c1) | None \<Rightarrow> None),
           d_box_id = p_box_id c1,
           d_last_request = (if debug_mode entry then last_request_data c1 else None)\<rparr>"
    unfolding out c1 by (simp only: cycle_returns_status status_fields)
  have gate: "\<forall>sensor_id_key entity_key label measurement_type sid eid.
          (sensor_id_key, entity_key, label, measurement_type) \<in> set SENSOR_CONFIGS
          \<and> get_str entry sensor_id_key = Some sid \<and> sid \<noteq> []
          \<and> get_str entry entity_key = Some eid \<and> eid \<noteq> []
          \<and> unusable (states hass eid) \<longrightarrow>
          last_error c1 =
            Some (''Sensors unavailable: '' @ join '', '' (unavailable_sources entry hass))
          \<and> posts = []"
  proof (intro allI impI)
    fix sensor_id_key entity_key label measurement_type sid eid
    assume h: "(sensor_id_key, entity_key, label, measurement_type) \<in> set SENSOR_CONFIGS
          \<and> get_str entry sensor_id_key = Some sid \<and> sid \<noteq> []
          \<and> get_str entry entity_key = Some eid \<and> eid \<noteq> []
          \<and> unusable (states hass eid)"
    then have "eid \<in> set (unavailable_sources entry hass)"
      using unavailable_sources_member [of sensor_id_key entity_key label measurement_type
          entry sid eid hass]
      by blast
    then have "unavailable_sources entry hass \<noteq> []"
      by auto
    then show "last_error c1 =
            Some (''Sensors unavailable: '' @ join '', '' (unavailable_sources entry hass))
          \<and> posts = []"
      by (simp add: err p)
  qed
  have sent: "posts =
        (if fst (all_sensors_available entry hass) \<and>
            collect_sensor_data pyfloat fmt entry hass \<noteq> []
         then [\<lparr>url = API_URL (p_box_id c),
                headers = request_headers (p_access_token c),
                payload = collect_sensor_data pyfloat fmt entry hass\<rparr>]
         else [])"
    by (simp add: p gate_open request_of_def)
  have net: "\<forall>req. posts = [req] \<longrightarrow>
          last_error c1 =
            (case net req of
               Response status body \<Rightarrow>
                 if status \<in> {200, 201} then None
                 else Some (''HTTP '' @ str_int status @ '': '' @ body)
             | TimeoutError \<Rightarrow> Some ''Request timeout''
             | ClientError msg \<Rightarrow> Some (if msg = [] then ''Unknown error'' else msg)
             | OtherException msg \<Rightarrow> Some msg)"
    by (simp add: p err split: if_splits)
  have handler: "\<forall>msg. snd (snd (update_try pyfloat fmt entry hass net now c)) = Inl (PyException msg) \<longrightarrow>
          last_error c1 = Some msg"
    unfolding c1 using cycle_handler [of pyfloat fmt entry hass net now c] by blast
  have silent: "fst (all_sensors_available entry hass) \<and>
        collect_sensor_data pyfloat fmt entry hass = [] \<longrightarrow>
          last_error c1 = None \<and> posts = [] \<and> upload_count c1 = upload_count c + 1"
    unfolding c1 posts by (simp add: gate_open cycle_empty)
  have counted: "last_error c1 = None \<longrightarrow>
          upload_count c1 = upload_count c + 1 \<and> last_upload c1 = Some now"
    unfolding c1 using cycle_success [of pyfloat fmt entry hass net now c] by blast
  show ?thesis
    by (intro conjI; (rule status gate sent net handler silent counted))
qed

theorem C8_cycle_never_raises_witness:
  "snd (snd (update_try ex_pyfloat ex_fmt (ex_entry False) (ex_hass ''212'' ''0.45'')
       (\<lambda>r. OtherException ''boom'') 1000 ex_coordinator)) = Inl (PyException ''boom'')
   \<and> last_error (fst (async_update_data ex_pyfloat ex_fmt (ex_entry False) (ex_hass ''212'' ''0.45'')
       (\<lambda>r. OtherException ''boom'') 1000 ex_coordinator)) = Some ''boom''
   \<and> snd (snd (async_update_data ex_pyfloat ex_fmt (ex_entry False) (ex_hass ''212'' ''0.45'')
       (\<lambda>r. OtherException ''boom'') 1000 ex_coordinator)) =
       Inr \<lparr>d_last_upload = None, d_last_error = Some ''boom'', d_upload_count = 0,
            d_next_upload = None, d_box_id = ex_box, d_last_request = None\<rparr>
   \<and> unusable (states (ex_hass ''unavailable'' ''unknown'') ''sensor.temp'')
   \<and> last_error (fst (async_update_data ex_pyfloat ex_fmt (ex_entry False)
       (ex_hass ''unavailable'' ''unknown'') (\<lambda>r. Response 200 ''ok'') 1000 ex_coordinator)) =
       Some ''Sensors unavailable: sensor.temp, sensor.hum''
   \<and> fst (snd (async_update_data ex_pyfloat ex_fmt (ex_entry False)
       (ex_hass ''unavailable'' ''unknown'') (\<lambda>r. Response 200 ''ok'') 1000 ex_coordinator)) = []
   \<and> fst (all_sensors_available (ex_entry False) (ex_hass ''n/a'' ''n/a''))
   \<and> collect_sensor_data ex_pyfloat ex_fmt (ex_entry False) (ex_hass ''n/a'' ''n/a'') = []
   \<and> last_error (fst (async_update_data ex_pyfloat ex_fmt (ex_entry False) (ex_hass ''n/a'' ''n/a'')
       (\<lambda>r. Response 200 ''ok'') 1000
       (ex_coordinator\<lparr>last_error := Some ''Request timeout''\<rparr>))) = None
   \<and> upload_count (fst (async_update_data ex_pyfloat ex_fmt (ex_entry False)
       (ex_hass ''n/a'' ''n/a'') (\<lambda>r. Response 200 ''ok'') 1000
       (ex_coordinator\<lparr>last_error := Some ''Request timeout''\<rparr>))) = 1"
proof -
  let ?raised = "async_update_data ex_pyfloat ex_fmt (ex_entry False) (ex_hass ''212'' ''0.45'')
       (\<lambda>r. OtherException ''boom'') 1000 ex_coordinator"
  let ?gated = "async_update_data ex_pyfloat ex_fmt (ex_entry False)
       (ex_hass ''unavailable'' ''unknown'') (\<lambda>r. Response 200 ''ok'') 1000 ex_coordinator"
  let ?skipped = "async_update_data ex_pyfloat ex_fmt (ex_entry False) (ex_hass ''n/a'' ''n/a'')
       (\<lambda>r. Response 200 ''ok'') 1000 (ex_coordinator\<lparr>last_error := Some ''Request timeout''\<rparr>)"
  have run1: "?raised = (fst ?raised, fst (snd ?raised), snd (snd ?raised))"
    and run2: "?gated = (fst ?gated, fst (snd ?gated), snd (snd ?gated))"
    and run3: "?skipped = (fst ?skipped, fst (snd ?skipped), snd (snd ?skipped))"
    by simp_all
  note th1 = C8_cycle_never_raises [OF run1]
    and th2 = C8_cycle_never_raises [OF run2]
    and th3 = C8_cycle_never_raises [OF run3]
  have t: "snd (snd (update_try ex_pyfloat ex_fmt (ex_entry False) (ex_hass ''212'' ''0.45'')
       (\<lambda>r. OtherException ''boom'') 1000 ex_coordinator)) = Inl (PyException ''boom'')"
    by (rule try_raises) (simp_all add: ex_unavailable_sources ex_collect)
  have w2: "last_error (fst ?raised) = Some ''boom''"
    using th1 [THEN conjunct2, THEN conjunct2, THEN conjunct2, THEN conjunct2, THEN conjunct1,
        rule_format, OF t] .
  have first: "fst ?raised = ex_coordinator\<lparr>p_session := True, last_error := Some ''boom''\<rparr>"
    by (simp add: ex_cycle_post after_post_def before_post_def ex_debug_mode)
  have w3: "snd (snd ?raised) =
       Inr \<lparr>d_last_upload = None, d_last_error = Some ''boom'', d_upload_count = 0,
            d_next_upload = None, d_box_id = ex_box, d_last_request = None\<rparr>"
    using th1 [THEN conjunct1] unfolding first
    by (simp add: ex_coordinator_def ex_debug_mode)
  have cfg: "(CONF_SENSOR_ID_TEMPERATURE, CONF_ENTITY_TEMPERATURE, ''Temperature'',
              MEASUREMENT_TEMPERATURE) \<in> set SENSOR_CONFIGS"
    by (simp add: SENSOR_CONFIGS_def)
  have un: "unusable (states (ex_hass ''unavailable'' ''unknown'') ''sensor.temp'')"
    by (simp add: ex_states unusable_def)
  have ne: "ex_sensor_t \<noteq> []" "''sensor.temp'' \<noteq> []"
    by (simp_all add: ex_sensor_t_def)
  have hyp: "(CONF_SENSOR_ID_TEMPERATURE, CONF_ENTITY_TEMPERATURE, ''Temperature'',
              MEASUREMENT_TEMPERATURE) \<in> set SENSOR_CONFIGS
          \<and> get_str (ex_entry False) CONF_SENSOR_ID_TEMPERATURE = Some ex_sensor_t
          \<and> ex_sensor_t \<noteq> []
          \<and> get_str (ex_entry False) CONF_ENTITY_TEMPERATURE = Some ''sensor.temp''
          \<and> ''sensor.temp'' \<noteq> []
          \<and> unusable (states (ex_hass ''unavailable'' ''unknown'') ''sensor.temp'')"
    using cfg un ne by (simp add: ex_get_str)
  have w4: "last_error (fst ?gated) = Some ''Sensors unavailable: sensor.temp, sensor.hum''
      \<and> fst (snd ?gated) = []"
    using th2 [THEN conjunct2, THEN conjunct1, rule_format, OF hyp]
    by (simp add: ex_unavailable_sources)
  have g: "fst (all_sensors_available (ex_entry False) (ex_hass ''n/a'' ''n/a''))"
    by (simp add: gate_open ex_unavailable_sources)
  have hyp3: "fst (all_sensors_available (ex_entry False) (ex_hass ''n/a'' ''n/a'')) \<and>
      collect_sensor_data ex_pyfloat ex_fmt (ex_entry False) (ex_hass ''n/a'' ''n/a'') = []"
    using g by (simp add: ex_collect_nothing)
  have w5: "last_error (fst ?skipped) = None \<and> fst (snd ?skipped) = []
      \<and> upload_count (fst ?skipped) =
          upload_count (ex_coordinator\<lparr>last_error := Some ''Request timeout''\<rparr>) + 1"
    using th3 [THEN conjunct2, THEN conjunct2, THEN conjunct2, THEN conjunct2, THEN conjunct2,
        THEN conjunct1, rule_format, OF hyp3] .
  have cnt: "upload_count (ex_coordinator\<lparr>last_error := Some ''Request timeout''\<rparr>) = 0"
    by (simp add: ex_coordinator_def)
  show ?thesis
    using t w2 w3 un w4 hyp3 w5 by (simp add: cnt)
qed

section \<open>The status sensor\<close>

text \<open>
  C9 (the code does not do what the text says): the state of the status sensor is
  \<open>error\<close> whenever \<open>last_error\<close> is set. The handler of the cycle stores the
  description of the exception as it is, and the sensor tests the truth value of
  \<open>last_error\<close>: when a post raises an exception whose description is empty, the cycle
  fails, \<open>last_error\<close> is set to the empty string, and the sensor reports \<open>pending\<close>,
  or \<open>ok\<close> when an earlier cycle had uploaded.
\<close>

theorem C9_empty_error_is_not_reported:
  "last_error (fst (async_update_data ex_pyfloat ex_fmt (ex_entry False) (ex_hass ''212'' ''0.45'')
      (\<lambda>r. OtherException []) 1000 ex_coordinator)) = Some []
   \<and> native_value (fst (async_update_data ex_pyfloat ex_fmt (ex_entry False)
      (ex_hass ''212'' ''0.45'') (\<lambda>r. OtherException []) 1000 ex_coordinator)) = ''pending''
   \<and> last_error (fst (async_update_data ex_pyfloat ex_fmt (ex_entry False) (ex_hass ''212'' ''0.45'')
      (\<lambda>r. OtherException []) 1000
      (ex_coordinator\<lparr>last_upload := Some 700, upload_count := 3\<rparr>))) = Some []
   \<and> native_value (fst (async_update_data ex_pyfloat ex_fmt (ex_entry False)
      (ex_hass ''212'' ''0.45'') (\<lambda>r. OtherException []) 1000
      (ex_coordinator\<lparr>last_upload := Some 700, upload_count := 3\<rparr>))) = ''ok''"
proof -
  have g: "unavailable_sources (ex_entry False) (ex_hass ''212'' ''0.45'') = []"
    by (simp add: ex_unavailable_sources)
  have d: "collect_sensor_data ex_pyfloat ex_fmt (ex_entry False) (ex_hass ''212'' ''0.45'') \<noteq> []"
    by (simp add: ex_collect)
  have first: "fst (async_update_data ex_pyfloat ex_fmt (ex_entry False) (ex_hass ''212'' ''0.45'')
      (\<lambda>r. OtherException []) 1000 ex_coordinator) =
      ex_coordinator\<lparr>p_session := True, last_error := Some []\<rparr>"
    by (simp add: cycle_post [OF g d] after_post_def before_post_def ex_debug_mode)
  have later: "fst (async_update_data ex_pyfloat ex_fmt (ex_entry False) (ex_hass ''212'' ''0.45'')
      (\<lambda>r. OtherException []) 1000
      (ex_coordinator\<lparr>last_upload := Some 700, upload_count := 3\<rparr>)) =
      ex_coordinator\<lparr>p_session := True, last_upload := Some 700, last_error := Some [],
        upload_count := 3\<rparr>"
    by (simp add: cycle_post [OF g d] after_post_def before_post_def ex_debug_mode)
  show ?thesis
    unfolding first later
    by (simp add: native_value_def truthy_def STATUS_PENDING_def STATUS_OK_def ex_coordinator_def)
qed

section \<open>The debug snapshot is kept\<close>

text \<open>
  C10: no operation clears a snapshot once it is there: a cycle leaves \<open>last_request_data\<close>
  set when it was set, and \<open>async_shutdown\<close> does not touch it. With debug mode off a cycle
  leaves the snapshot as it was, and the status dict and the sensor attributes omit it;
  with debug mode on they show whatever is stored, so a status read with debug mode on
  again, after a cycle with debug mode off, shows the snapshot from before that cycle. A
  cycle that posts nothing leaves the snapshot as it was, also with debug mode on; a cycle
  that posts with debug mode on replaces it.
\<close>

theorem C10_snapshot_is_never_cleared:
  assumes "async_update_data pyfloat fmt entry hass net now c = (c1, posts, out)"
  shows "(last_request_data c \<noteq> None \<longrightarrow> last_request_data c1 \<noteq> None)
    \<and> last_request_data (async_shutdown c) = last_request_data c
    \<and> (\<not> debug_mode entry \<longrightarrow>
          last_request_data c1 = last_request_data c
          \<and> d_last_request (get_status_data entry c1) = None
          \<and> a_last_request (extra_state_attributes box entry c1) = None)
    \<and> (debug_mode later \<longrightarrow>
          d_last_request (get_status_data later c1) = last_request_data c1
          \<and> a_last_request (extra_state_attributes box later c1) = last_request_data c1)
    \<and> (\<not> debug_mode entry \<and> debug_mode later \<longrightarrow>
          d_last_request (get_status_data later c1) = last_request_data c
          \<and> a_last_request (extra_state_attributes box later c1) = last_request_data c)
    \<and> (posts = [] \<longrightarrow> last_request_data c1 = last_request_data c)
    \<and> (debug_mode entry \<and> posts \<noteq> [] \<longrightarrow>
          last_request_data c1 = Some (snapshot_of pyfloat fmt entry hass c))"
proof -
  have c1: "c1 = fst (async_update_data pyfloat fmt entry hass net now c)"
    and posts: "posts = fst (snd (async_update_data pyfloat fmt entry hass net now c))"
    using assms by simp_all
  have snap: "last_request_data c1 =
    (if debug_mode entry \<and> unavailable_sources entry hass = [] \<and>
        collect_sensor_data pyfloat fmt entry hass \<noteq> []
     then Some (snapshot_of pyfloat fmt entry hass c)
     else last_request_data c)"
    unfolding c1 by (rule cycle_snapshot)
  have p: "posts =
    (if unavailable_sources entry hass = [] \<and> collect_sensor_data pyfloat fmt entry hass \<noteq> []
     then [request_of pyfloat fmt entry hass c] else [])"
    unfolding posts by (rule cycle_posts_eq)
  have kept: "last_request_data c \<noteq> None \<longrightarrow> last_request_data c1 \<noteq> None"
    by (simp add: snap)
  have down: "last_request_data (async_shutdown c) = last_request_data c"
    by (simp add: async_shutdown_def)
  have off: "\<not> debug_mode entry \<longrightarrow>
          last_request_data c1 = last_request_data c
          \<and> d_last_request (get_status_data entry c1) = None
          \<and> a_last_request (extra_state_attributes box entry c1) = None"
    by (simp add: snap get_status_data_def extra_state_attributes_def)
  have on: "debug_mode later \<longrightarrow>
          d_last_request (get_status_data later c1) = last_request_data c1
          \<and> a_last_request (extra_state_attributes box later c1) = last_request_data c1"
    by (simp add: get_status_data_def extra_state_attributes_def)
  have quiet: "posts = [] \<longrightarrow> last_request_data c1 = last_request_data c"
    by (simp add: snap p split: if_splits)
  have fresh: "debug_mode entry \<and> posts \<noteq> [] \<longrightarrow>
          last_request_data c1 = Some (snapshot_of pyfloat fmt entry hass c)"
    by (simp add: snap p split: if_splits)
  have stale: "\<not> debug_mode entry \<and> debug_mode later \<longrightarrow>
          d_last_request (get_status_data later c1) = last_request_data c
          \<and> a_last_request (extra_state_attributes box later c1) = last_request_data c"
    using off on by simp
  show ?thesis
    by (intro conjI; (rule kept down off on stale quiet fresh))
qed

theorem C10_snapshot_is_never_cleared_witness:
  "async_update_data ex_pyfloat ex_fmt (ex_entry False) (ex_hass ''212'' ''0.45'')
      (\<lambda>r. Response 200 ''ok'') 1000 (ex_coordinator\<lparr>last_request_data := Some ex_stale\<rparr>)
    = (ex_coordinator\<lparr>p_session := True, last_upload := Some 1000, upload_count := 1,
          last_request_data := Some ex_stale\<rparr>,
       [\<lparr>url = API_URL ex_box, headers = request_headers (Some ''s3cr3t''),
         payload = [(ex_sensor_t, ''100.00''), (ex_sensor_h, ''45.00'')]\<rparr>],
       Inr (get_status_data (ex_entry False)
         (ex_coordinator\<lparr>p_session := True, last_upload := Some 1000, upload_count := 1,
            last_request_data := Some ex_stale\<rparr>)))
   \<and> debug_mode (ex_entry True)
   \<and> d_last_request (get_status_data (ex_entry False)
        (ex_coordinator\<lparr>p_session := True, last_upload := Some 1000, upload_count := 1,
            last_request_data := Some ex_stale\<rparr>)) = None
   \<and> d_last_request (get_status_data (ex_entry True)
        (ex_coordinator\<lparr>p_session := True, last_upload := Some 1000, upload_count := 1,
            last_request_data := Some ex_stale\<rparr>)) = Some ex_stale
   \<and> a_last_request (extra_state_attributes ex_box (ex_entry True)
        (ex_coordinator\<lparr>p_session := True, last_upload := Some 1000, upload_count := 1,
            last_request_data := Some ex_stale\<rparr>)) = Some ex_stale"
proof -
  let ?c = "ex_coordinator\<lparr>last_request_data := Some ex_stale\<rparr>"
  let ?c1 = "ex_coordinator\<lparr>p_session := True, last_upload := Some 1000, upload_count := 1,
          last_request_data := Some ex_stale\<rparr>"
  have g: "unavailable_sources (ex_entry False) (ex_hass ''212'' ''0.45'') = []"
    by (simp add: ex_unavailable_sources)
  have d: "collect_sensor_data ex_pyfloat ex_fmt (ex_entry False) (ex_hass ''212'' ''0.45'') \<noteq> []"
    by (simp add: ex_collect)
  have run: "async_update_data ex_pyfloat ex_fmt (ex_entry False) (ex_hass ''212'' ''0.45'')
      (\<lambda>r. Response 200 ''ok'') 1000 ?c
    = (?c1,
       [\<lparr>url = API_URL ex_box, headers = request_headers (Some ''s3cr3t''),
         payload = [(ex_sensor_t, ''100.00''), (ex_sensor_h, ''45.00'')]\<rparr>],
       Inr (get_status_data (ex_entry False) ?c1))"
    by (simp add: cycle_post [OF g d] after_post_def before_post_def ex_debug_mode
          request_of_def ex_collect ex_coordinator_def)
  have off: "\<not> debug_mode (ex_entry False)" and on: "debug_mode (ex_entry True)"
    by (simp_all add: ex_debug_mode)
  show ?thesis
    using run off on
      C10_snapshot_is_never_cleared [OF run, where later = "ex_entry True" and box = ex_box]
    by (simp add: ex_coordinator_def)
qed

end
